theory Spec2Isabelle
  imports Main "HOL-Library.Word"
begin

section \<open>EITViewer: the Presenter of src/EITViewer.ts\<close>

text \<open>
  The script reads a transport stream, lets the demultiplexer of the aribts package emit
  decoded EIT and TOT tables, and prints each table that passes its filters. The
  definitions below follow src/EITViewer.ts line by line. JavaScript numbers that hold
  identifiers are \<open>int\<close>; a \<open>Buffer\<close> is a list of bytes; a string is a HOL
  \<open>string\<close>, read as a sequence of code units below 256.
\<close>

subsection \<open>Values of the runtime\<close>

type_synonym byte = "8 word"
type_synonym buffer = "byte list"

text \<open>A number that \<open>parseInt\<close> returns: an integer or \<open>NaN\<close>.\<close>

datatype jsnumber = NaN | Num int

text \<open>
  What a formatted field holds: a \<open>Buffer\<close> the handler left alone, a string, a
  number, or the number \<open>Infinity\<close>.
\<close>

datatype field = Buffer buffer | Str string | Number int | Infinity

text \<open>Exceptions and fatal start-up errors.\<close>

datatype error = TypeError | MissingInput

subsection \<open>Built-in functions the script calls\<close>

text \<open>
  Lines 18 to 20, \<open>range(s, t = 0, a = 1)\<close>:
  \<^verbatim>\<open>[...Array(Math.abs(s - t))].map((x, i) => Math.min(s, t) + i * a).filter(x => x < Math.max(s, t))\<close>
\<close>

definition range_ts :: "int \<Rightarrow> int \<Rightarrow> int \<Rightarrow> int list" where
  "range_ts s t a =
     filter (\<lambda>x. x < max s t) (map (\<lambda>i. min s t + int i * a) [0..<nat \<bar>s - t\<bar>])"

text \<open>
  \<open>Array.prototype.includes\<close> compares with SameValueZero, under which \<open>NaN\<close> equals
  \<open>NaN\<close>: on the types used here it is equality.
\<close>

definition array_includes :: "'a list \<Rightarrow> 'a \<Rightarrow> bool" where
  "array_includes xs x = (x \<in> set xs)"

text \<open>
  \<open>Buffer.compare\<close>: bytewise lexicographic order, a proper prefix first; the result is
  \<open>-1\<close>, \<open>0\<close> or \<open>1\<close>.
\<close>

fun Buffer_compare :: "buffer \<Rightarrow> buffer \<Rightarrow> int" where
  "Buffer_compare [] [] = 0"
| "Buffer_compare [] (y # ys) = - 1"
| "Buffer_compare (x # xs) [] = 1"
| "Buffer_compare (x # xs) (y # ys) =
     (if x < y then - 1 else if y < x then 1 else Buffer_compare xs ys)"

text \<open>\<open>String.prototype.split\<close> with a one-character separator.\<close>

fun string_split :: "char \<Rightarrow> string \<Rightarrow> string list" where
  "string_split sep [] = [[]]"
| "string_split sep (c # cs) =
     (if c = sep then [] # string_split sep cs
      else (case string_split sep cs of
              [] \<Rightarrow> [[c]]
            | w # ws \<Rightarrow> (c # w) # ws))"

text \<open>
  The white space that \<open>parseInt\<close> and \<open>ToNumber\<close> skip, among the code units below
  256: TAB, LF, VT, FF, CR, SP and NBSP.
\<close>

definition StrWhiteSpaceChar :: "char \<Rightarrow> bool" where
  "StrWhiteSpaceChar c = ((of_char c :: nat) \<in> {9, 10, 11, 12, 13, 32, 160})"

text \<open>The value of a character as a digit: \<open>0-9\<close>, then \<open>a-z\<close> or \<open>A-Z\<close> for 10 to 35.\<close>

definition digit_of :: "char \<Rightarrow> nat option" where
  "digit_of c =
     (let n = (of_char c :: nat)
      in if 48 \<le> n \<and> n \<le> 57 then Some (n - 48)
         else if 97 \<le> n \<and> n \<le> 122 then Some (n - 87)
         else if 65 \<le> n \<and> n \<le> 90 then Some (n - 55)
         else None)"

definition is_radix_digit :: "nat \<Rightarrow> char \<Rightarrow> bool" where
  "is_radix_digit R c = (case digit_of c of None \<Rightarrow> False | Some d \<Rightarrow> d < R)"

fun digits_value :: "nat \<Rightarrow> nat \<Rightarrow> string \<Rightarrow> nat" where
  "digits_value R acc [] = acc"
| "digits_value R acc (c # cs) =
     digits_value R (acc * R + (case digit_of c of None \<Rightarrow> 0 | Some d \<Rightarrow> d)) cs"

text \<open>
  \<open>parseInt(value)\<close> with no radix: skip leading white space, read a sign, read a
  \<open>0x\<close> or \<open>0X\<close> prefix (radix 16, otherwise 10), take the longest run of digits of
  the radix, and return \<open>NaN\<close> when that run is empty. Whatever follows the digits is
  ignored. The result is exact here; JavaScript rounds it to a double beyond \<open>2^53\<close>.
\<close>

definition parseInt :: "string \<Rightarrow> jsnumber" where
  "parseInt str =
     (let s1 = dropWhile StrWhiteSpaceChar str;
          sign = (case s1 of c # _ \<Rightarrow> if c = CHR ''-'' then - 1 else (1 :: int) | [] \<Rightarrow> 1);
          s2 = (case s1 of c # r \<Rightarrow> if c = CHR ''-'' \<or> c = CHR ''+'' then r else s1 | [] \<Rightarrow> s1);
          hex = (case s2 of
                   c # x # _ \<Rightarrow> c = CHR ''0'' \<and> (x = CHR ''x'' \<or> x = CHR ''X'')
                 | _ \<Rightarrow> False);
          R = (if hex then 16 else 10);
          s3 = (if hex then drop 2 s2 else s2);
          Z = takeWhile (is_radix_digit R) s3
      in if Z = [] then NaN else Num (sign * int (digits_value R 0 Z)))"

text \<open>
  \<open>String.fromCharCode(...x)\<close> turns each argument into a code unit by
  \<open>ToUint16(ToNumber(argument))\<close>. Spreading a \<open>Buffer\<close> passes its bytes as numbers.
\<close>

definition fromCharCode_buffer :: "buffer \<Rightarrow> string" where
  "fromCharCode_buffer b = map (\<lambda>x. char_of (unat x)) b"

text \<open>
  Spreading a string passes its characters as one-character strings. \<open>ToNumber\<close> of a
  one-character string is its value for a decimal digit, \<open>0\<close> for white space and
  \<open>NaN\<close> otherwise; \<open>ToUint16\<close> maps \<open>NaN\<close> to \<open>0\<close>.
\<close>

definition ToNumber_char :: "char \<Rightarrow> jsnumber" where
  "ToNumber_char c =
     (let n = (of_char c :: nat)
      in if 48 \<le> n \<and> n \<le> 57 then Num (int n - 48)
         else if StrWhiteSpaceChar c then Num 0
         else NaN)"

definition ToUint16 :: "jsnumber \<Rightarrow> nat" where
  "ToUint16 x = (case x of NaN \<Rightarrow> 0 | Num i \<Rightarrow> nat (i mod 65536))"

definition fromCharCode_string :: "string \<Rightarrow> string" where
  "fromCharCode_string s = map (\<lambda>c. char_of (ToUint16 (ToNumber_char c))) s"

text \<open>A template literal prints an integer in decimal (below \<open>10^21\<close> in JavaScript).\<close>

fun decimal :: "nat \<Rightarrow> string" where
  "decimal n =
     (if n < 10 then [char_of (48 + n)] else decimal (n div 10) @ [char_of (48 + n mod 10)])"

definition number_to_string :: "int \<Rightarrow> string" where
  "number_to_string i = (if i < 0 then CHR ''-'' # decimal (nat (- i)) else decimal (nat i))"

declare decimal.simps [simp del]

subsection \<open>Tables as the demultiplexer emits them\<close>

text \<open>
  One record type serves the tables as received (\<open>'a = buffer\<close>: every encoded field is
  a \<open>Buffer\<close>) and as printed (\<open>'a = field\<close>). A property that an object may lack is an
  \<open>option\<close>. The fields \<open>descriptor_raw\<close>, \<open>eit_raw\<close> and \<open>tot_raw\<close> stand for the
  property \<open>_raw\<close> of the three kinds of object. Properties the script never reads are
  left out.
\<close>

record 'a item =
  item_description_char :: 'a
  item_char :: 'a

record 'a descriptor =
  descriptor_tag :: int
  descriptor_raw :: "buffer option"
  ISO_639_language_code :: "'a option"
  text_char :: "'a option"
  event_name_char :: "'a option"
  items :: "'a item list option"

record 'a event =
  event_id :: int
  start_time :: 'a
  duration :: 'a
  descriptors :: "'a descriptor list"

record 'a eit =
  table_id :: int
  service_id :: int
  section_number :: int
  events :: "'a event list option"
  eit_raw :: "buffer option"

record 'a tot =
  JST_time :: 'a
  tot_raw :: "buffer option"

datatype rawtable = EIT "buffer eit" | TOT "buffer tot"

text \<open>
  What the logger receives: a line of text (\<open>logger.log\<close>) or a structured dump of a
  formatted table (\<open>logger.dir\<close> with unbounded depth).
\<close>

datatype logged = Log string | Dir_eit "field eit" | Dir_tot "field tot"

subsection \<open>The packages the script calls\<close>

text \<open>
  The decoders of \<open>@chinachu/aribts\<close> and the formatter of \<open>dayjs\<close> are not part of the
  repository. The handlers take them as parameters: \<open>TsDate_decode\<close> is
  \<open>new TsDate(b).decode()\<close>, returning a date of some type \<open>'d\<close>;
  \<open>TsDate_decodeTime\<close> is \<open>new TsDate(b).decodeTime()\<close>, returning hours, minutes and
  seconds; \<open>dayjs_local_format\<close> is \<open>dayjs(d).local().format()\<close>; \<open>TsChar_decode\<close> is
  \<open>new TsChar(b).decode()\<close>.
\<close>

record 'd library =
  TsDate_decode :: "buffer \<Rightarrow> 'd"
  TsDate_decodeTime :: "buffer \<Rightarrow> int \<times> int \<times> int"
  dayjs_local_format :: "'d \<Rightarrow> string"
  TsChar_decode :: "buffer \<Rightarrow> string"

text \<open>
  Modelled from the spec: \<open>TsDate.decodeTime\<close> belongs to the package
  \<open>@chinachu/aribts\<close> and is not under src/. The spec describes its input as a 24-bit BCD
  hour/minute/second triple, and BCD as a byte encoding where each nibble represents one
  decimal digit. The spec gives it no value outside three bytes.
\<close>

definition bcd :: "byte \<Rightarrow> int" where
  "bcd b = 10 * uint (drop_bit 4 b) + uint (take_bit 4 b)"

fun spec_decodeTime :: "buffer \<Rightarrow> int \<times> int \<times> int" where
  "spec_decodeTime [h, m, s] = (bcd h, bcd m, bcd s)"
| "spec_decodeTime _ = (0, 0, 0)"

text \<open>
  Modelled from the spec: \<open>TsDate.decode\<close> (package \<open>@chinachu/aribts\<close>) and
  \<open>dayjs(d).local().format()\<close> (package \<open>dayjs\<close>) are not under src/. The spec describes
  the raw value as a 16-bit Modified Julian Day followed by a 24-bit BCD time of day, which
  is decoded into a calendar date-time and rendered as an ISO-8601-style offset timestamp
  string in the fixed zone Asia/Tokyo, UTC+9. The calendar date of a Modified Julian Day
  is computed by the rule of the broadcast standards, which holds from 1 March 1900
  (day 15079) on. The spec gives the decoder no value outside five bytes.
\<close>

record civil =
  year :: int
  month :: int
  day :: int
  hour :: int
  minute :: int
  second :: int

definition mjd_date :: "int \<Rightarrow> int \<times> int \<times> int" where
  "mjd_date mjd =
     (let y = (100 * mjd - 1507820) div 36525;
          a = (y * 36525) div 100;
          m = (10000 * (mjd - a) - 149561000) div 306001;
          d = mjd - 14956 - a - (m * 306001) div 10000;
          k = (if m = 14 \<or> m = 15 then 1 else 0)
      in (y + k + 1900, m - 1 - k * 12, d))"

fun spec_decode :: "buffer \<Rightarrow> civil" where
  "spec_decode [d1, d2, h, m, s] =
     (case mjd_date (256 * uint d1 + uint d2) of
        (y, mo, d) \<Rightarrow>
          \<lparr>year = y, month = mo, day = d, hour = bcd h, minute = bcd m, second = bcd s\<rparr>)"
| "spec_decode _ = \<lparr>year = 0, month = 0, day = 0, hour = 0, minute = 0, second = 0\<rparr>"

text \<open>A number in decimal, filled with zeros on the left up to a width.\<close>

definition pad_start :: "nat \<Rightarrow> int \<Rightarrow> string" where
  "pad_start w i =
     (let s = decimal (nat i) in replicate (w - length s) (CHR ''0'') @ s)"

definition spec_format :: "civil \<Rightarrow> string" where
  "spec_format c =
     pad_start 4 (year c) @ ''-'' @ pad_start 2 (month c) @ ''-'' @ pad_start 2 (day c)
       @ ''T'' @ pad_start 2 (hour c) @ '':'' @ pad_start 2 (minute c) @ '':''
       @ pad_start 2 (second c) @ ''+09:00''"

text \<open>
  The shape of an offset timestamp, \<open>dddd-dd-ddTdd:dd:dd\<close> followed by a sign and
  \<open>dd:dd\<close>: in the pattern \<open>d\<close> stands for a decimal digit, \<open>s\<close> for a sign, and every
  other character for itself.
\<close>

fun matches :: "string \<Rightarrow> string \<Rightarrow> bool" where
  "matches [] [] = True"
| "matches (p # ps) (c # cs) =
     ((if p = CHR ''d'' then is_radix_digit 10 c
       else if p = CHR ''s'' then c = CHR ''+'' \<or> c = CHR ''-''
       else c = p) \<and> matches ps cs)"
| "matches _ _ = False"

definition is_offset_timestamp :: "string \<Rightarrow> bool" where
  "is_offset_timestamp str = matches ''dddd-dd-ddTdd:dd:ddsdd:dd'' str"

text \<open>A byte of two decimal digits.\<close>

definition valid_bcd :: "byte \<Rightarrow> bool" where
  "valid_bcd b = (uint (drop_bit 4 b) \<le> 9 \<and> uint (take_bit 4 b) \<le> 9)"

subsection \<open>Start-up: lines 39 to 71\<close>

text \<open>
  \<open>options\<close> is what \<open>program.opts()\<close> holds: a key is present when its flag was given.
\<close>

record options =
  input :: "string option"
  outputLog :: "string option"
  eitTypes :: "string option"
  serviceIds :: "string option"
  eventIds :: "string option"

record config =
  filterEitTypes :: "string list"
  filterServiceIds :: "jsnumber list"
  filterEventIds :: "jsnumber list"

text \<open>Lines 13 and 14.\<close>

definition UNKNOWN_START_TIME :: buffer where
  "UNKNOWN_START_TIME = [0xFF, 0xFF, 0xFF, 0xFF, 0xFF]"

definition UNKNOWN_DURATION :: buffer where
  "UNKNOWN_DURATION = [0xFF, 0xFF, 0xFF]"

text \<open>Lines 55 to 71: the three allow-lists, empty when the flag is absent.\<close>

definition configure :: "options \<Rightarrow> config" where
  "configure opts =
     \<lparr>filterEitTypes =
        (case eitTypes opts of None \<Rightarrow> [] | Some s \<Rightarrow> string_split (CHR '','') s),
      filterServiceIds =
        (case serviceIds opts of None \<Rightarrow> []
         | Some s \<Rightarrow> map parseInt (string_split (CHR '','') s)),
      filterEventIds =
        (case eventIds opts of None \<Rightarrow> []
         | Some s \<Rightarrow> map parseInt (string_split (CHR '','') s))\<rparr>"

text \<open>
  Modelled from the spec: \<open>requiredOption\<close> belongs to the package \<open>commander\<close> and is
  not under src/. The spec says that a missing \<open>--input\<close> is a start-up configuration
  error. Lines 55 to 71 raise nothing.
\<close>

definition startup :: "options \<Rightarrow> error + config" where
  "startup opts = (case input opts of None \<Rightarrow> Inl MissingInput | Some path \<Rightarrow> Inr (configure opts))"

subsection \<open>Field decoding: lines 101 to 151\<close>

text \<open>Lines 114 and 172: \<open>dayjs(new TsDate(b).decode()).local().format()\<close>.\<close>

definition format_datetime :: "'d library \<Rightarrow> buffer \<Rightarrow> string" where
  "format_datetime lib b = dayjs_local_format lib (TsDate_decode lib b)"

text \<open>Lines 110 to 115.\<close>

definition format_start_time :: "'d library \<Rightarrow> buffer \<Rightarrow> field" where
  "format_start_time lib b =
     (if Buffer_compare UNKNOWN_START_TIME b = 0 then Infinity
      else Str (format_datetime lib b))"

text \<open>Lines 117 to 123.\<close>

definition format_duration :: "'d library \<Rightarrow> buffer \<Rightarrow> field" where
  "format_duration lib b =
     (if Buffer_compare UNKNOWN_DURATION b = 0 then Infinity
      else (case TsDate_decodeTime lib b of
              (h, m, s) \<Rightarrow> Number (h * 3600 + m * 60 + s)))"

text \<open>Lines 144 to 147: both texts of an item are decoded.\<close>

definition format_item :: "'d library \<Rightarrow> buffer item \<Rightarrow> field item" where
  "format_item lib it =
     \<lparr>item_description_char = Str (TsChar_decode lib (item_description_char it)),
      item_char = Str (TsChar_decode lib (item_char it))\<rparr>"

text \<open>An item of a descriptor whose tag is not \<open>0x4E\<close> stays as it was received.\<close>

definition untouched_item :: "buffer item \<Rightarrow> field item" where
  "untouched_item it =
     \<lparr>item_description_char = Buffer (item_description_char it),
      item_char = Buffer (item_char it)\<rparr>"

text \<open>
  Lines 125 to 150, for one descriptor. \<open>_raw\<close> is deleted (lines 126, 127). A language
  code that is present becomes a string (lines 129 to 131) and a \<open>text_char\<close> that is
  present is decoded (lines 133 to 135). Then the \<open>switch\<close>:
  \<^item> tag \<open>0x4D\<close> decodes \<open>event_name_char\<close>; the decoder is a function of a
    \<open>Buffer\<close>, and the call on an absent property is taken to raise \<open>TypeError\<close>;
  \<^item> tag \<open>0x4E\<close> runs \<open>String.fromCharCode(...descriptor.ISO_639_language_code)\<close> once
    more (line 143), on the string that line 130 stored, and decodes the items; spreading
    or iterating an absent property raises \<open>TypeError\<close>;
  \<^item> any other tag touches nothing else.
\<close>

definition format_descriptor :: "'d library \<Rightarrow> buffer descriptor \<Rightarrow> error + field descriptor" where
  "format_descriptor lib d =
     (let lang = map_option fromCharCode_buffer (ISO_639_language_code d);
          txt = map_option (\<lambda>b. Str (TsChar_decode lib b)) (text_char d)
      in if descriptor_tag d = 0x4D then
           (case event_name_char d of
              None \<Rightarrow> Inl TypeError
            | Some name \<Rightarrow>
                Inr \<lparr>descriptor_tag = descriptor_tag d, descriptor_raw = None,
                     ISO_639_language_code = map_option Str lang, text_char = txt,
                     event_name_char = Some (Str (TsChar_decode lib name)),
                     items = map_option (map untouched_item) (items d)\<rparr>)
         else if descriptor_tag d = 0x4E then
           (case lang of
              None \<Rightarrow> Inl TypeError
            | Some l \<Rightarrow>
                (case items d of
                   None \<Rightarrow> Inl TypeError
                 | Some its \<Rightarrow>
                     Inr \<lparr>descriptor_tag = descriptor_tag d, descriptor_raw = None,
                          ISO_639_language_code = Some (Str (fromCharCode_string l)),
                          text_char = txt,
                          event_name_char = map_option Buffer (event_name_char d),
                          items = Some (map (format_item lib) its)\<rparr>))
         else
           Inr \<lparr>descriptor_tag = descriptor_tag d, descriptor_raw = None,
                ISO_639_language_code = map_option Str lang, text_char = txt,
                event_name_char = map_option Buffer (event_name_char d),
                items = map_option (map untouched_item) (items d)\<rparr>)"

text \<open>The loop of line 125; the first exception ends it.\<close>

fun format_descriptors :: "'d library \<Rightarrow> buffer descriptor list \<Rightarrow> error + field descriptor list" where
  "format_descriptors lib [] = Inr []"
| "format_descriptors lib (d # ds) =
     (case format_descriptor lib d of
        Inl err \<Rightarrow> Inl err
      | Inr fd \<Rightarrow>
          (case format_descriptors lib ds of
             Inl err \<Rightarrow> Inl err
           | Inr fds \<Rightarrow> Inr (fd # fds)))"

text \<open>Lines 110 to 150, for one event.\<close>

definition format_event :: "'d library \<Rightarrow> buffer event \<Rightarrow> error + field event" where
  "format_event lib ev =
     (case format_descriptors lib (descriptors ev) of
        Inl err \<Rightarrow> Inl err
      | Inr fds \<Rightarrow>
          Inr \<lparr>event_id = event_id ev,
               start_time = format_start_time lib (start_time ev),
               duration = format_duration lib (duration ev),
               descriptors = fds\<rparr>)"

text \<open>
  The loop of lines 105 to 151. The flag \<open>isTargetEventDetected\<close> (line 104) is threaded
  through: line 108 sets it when the allow-list of event ids is not empty and holds the
  event's id.
\<close>

fun format_events ::
  "'d library \<Rightarrow> jsnumber list \<Rightarrow> bool \<Rightarrow> buffer event list \<Rightarrow> error + (field event list \<times> bool)" where
  "format_events lib ids isTargetEventDetected [] = Inr ([], isTargetEventDetected)"
| "format_events lib ids isTargetEventDetected (ev # evs) =
     (let detected =
            (if length ids > 0 \<and> array_includes ids (Num (event_id ev)) = True then True
             else isTargetEventDetected)
      in case format_event lib ev of
           Inl err \<Rightarrow> Inl err
         | Inr fev \<Rightarrow>
             (case format_events lib ids detected evs of
                Inl err \<Rightarrow> Inl err
              | Inr (fevs, flag) \<Rightarrow> Inr (fev # fevs, flag)))"

subsection \<open>The EIT handler: lines 83 to 163\<close>

definition separator :: string where
  "separator = replicate 80 (CHR ''='')"

text \<open>Lines 95 to 98.\<close>

definition eit_type :: "'a eit \<Rightarrow> string" where
  "eit_type eit =
     (if table_id eit = 0x4E then (if section_number eit = 0 then ''present'' else ''following'')
      else ''schedule'')"

text \<open>Line 159.\<close>

definition banner :: "'a eit \<Rightarrow> string" where
  "banner eit =
     ''EIT (Event Information Table) ['' @ eit_type eit @ ''] [service_id: ''
       @ number_to_string (service_id eit) @ '']''"

text \<open>
  Lines 91 to 162, what the handler does with a table whose event list \<open>evs\<close> is present
  and whose \<open>table_id\<close> passed line 89: the service-id filter, the type filter, the
  decoding, the two event-id checks, and the four calls of the logger. The result is the
  exception raised, or what was logged.
\<close>

definition eit_filtered :: "'d library \<Rightarrow> config \<Rightarrow> buffer eit \<Rightarrow> buffer event list \<Rightarrow> error + logged list" where
  "eit_filtered lib cfg eit evs =
     (if length (filterServiceIds cfg) > 0
         \<and> array_includes (filterServiceIds cfg) (Num (service_id eit)) = False
      then Inr []
      else if length (filterEitTypes cfg) > 0
         \<and> array_includes (filterEitTypes cfg) (eit_type eit) = False
      then Inr []
      else
        (case format_events lib (filterEventIds cfg) False evs of
           Inl err \<Rightarrow> Inl err
         | Inr (fevs, isTargetEventDetected) \<Rightarrow>
             if length (filterEventIds cfg) > 0 \<and> length fevs = 0 then Inr []
             else if length (filterEventIds cfg) > 0 \<and> isTargetEventDetected = False then Inr []
             else
               Inr [Log (banner eit),
                    Log separator,
                    Dir_eit \<lparr>table_id = table_id eit, service_id = service_id eit,
                             section_number = section_number eit, events = Some fevs,
                             eit_raw = None\<rparr>,
                    Log separator]))"

text \<open>Lines 83 to 89, then the rest.\<close>

definition on_eit :: "'d library \<Rightarrow> config \<Rightarrow> buffer eit \<Rightarrow> error + logged list" where
  "on_eit lib cfg eit =
     (case events eit of
        None \<Rightarrow> Inr []
      | Some evs \<Rightarrow>
          if \<not> array_includes (range_ts 0x50 0x60 1) (table_id eit) \<and> table_id eit \<noteq> 0x4E
          then Inr []
          else eit_filtered lib cfg eit evs)"

subsection \<open>The TOT handler: lines 167 to 178\<close>

definition on_tot :: "'d library \<Rightarrow> buffer tot \<Rightarrow> error + logged list" where
  "on_tot lib tot =
     Inr [Log ''TOT (Time Offset Table)'',
          Log separator,
          Dir_tot \<lparr>JST_time = Str (format_datetime lib (JST_time tot)), tot_raw = None\<rparr>,
          Log separator]"

subsection \<open>The whole run\<close>

text \<open>The demultiplexer calls the handler of the table's kind.\<close>

fun present :: "'d library \<Rightarrow> config \<Rightarrow> rawtable \<Rightarrow> error + logged list" where
  "present lib cfg (EIT eit) = on_eit lib cfg eit"
| "present lib cfg (TOT tot) = on_tot lib tot"

text \<open>
  Tables are handled in the order they are emitted. Nothing in the script catches an
  exception of a handler: the run ends there, with what was logged before.
\<close>

fun run :: "'d library \<Rightarrow> config \<Rightarrow> rawtable list \<Rightarrow> logged list \<times> error option" where
  "run lib cfg [] = ([], None)"
| "run lib cfg (t # ts) =
     (case present lib cfg t of
        Inl err \<Rightarrow> ([], Some err)
      | Inr out \<Rightarrow> (case run lib cfg ts of (rest, r) \<Rightarrow> (out @ rest, r)))"

text \<open>Lines 39 to 80, then the tables: line 80 logs one separator first.\<close>

definition main :: "'d library \<Rightarrow> options \<Rightarrow> rawtable list \<Rightarrow> logged list \<times> error option" where
  "main lib opts tables =
     (case startup opts of
        Inl err \<Rightarrow> ([], Some err)
      | Inr cfg \<Rightarrow> (case run lib cfg tables of (out, r) \<Rightarrow> (Log separator # out, r)))"

text \<open>What a handler wrote to the sink: nothing when it raised.\<close>

definition output_of :: "error + logged list \<Rightarrow> logged list" where
  "output_of r = (case r of Inl err \<Rightarrow> [] | Inr out \<Rightarrow> out)"

subsection \<open>Sample inputs\<close>

text \<open>
  A library for closed instances: \<open>decodeTime\<close> is the BCD decoder above; the other three
  functions, of which nothing is assumed, read bytes as characters.
\<close>

definition sample_library :: "buffer library" where
  "sample_library =
     \<lparr>TsDate_decode = (\<lambda>b. b), TsDate_decodeTime = spec_decodeTime,
      dayjs_local_format = fromCharCode_buffer, TsChar_decode = fromCharCode_buffer\<rparr>"

definition no_options :: options where
  "no_options =
     \<lparr>input = Some ''in.ts'', outputLog = None, eitTypes = None, serviceIds = None,
      eventIds = None\<rparr>"

definition sample_event :: "int \<Rightarrow> buffer event" where
  "sample_event i =
     \<lparr>event_id = i, start_time = UNKNOWN_START_TIME, duration = [0x01, 0x30, 0x00],
      descriptors = []\<rparr>"

definition sample_eit :: "int \<Rightarrow> int \<Rightarrow> int \<Rightarrow> buffer event list option \<Rightarrow> buffer eit" where
  "sample_eit tid sid sec evs =
     \<lparr>table_id = tid, service_id = sid, section_number = sec, events = evs, eit_raw = Some []\<rparr>"

text \<open>
  The library as the spec describes it: the date-time decoder, the time decoder and the
  formatter above; the text decoder, of which nothing is assumed, reads bytes as
  characters.
\<close>

definition spec_library :: "civil library" where
  "spec_library =
     \<lparr>TsDate_decode = spec_decode, TsDate_decodeTime = spec_decodeTime,
      dayjs_local_format = spec_format, TsChar_decode = fromCharCode_buffer\<rparr>"

section \<open>Properties\<close>

subsection \<open>Built-in functions\<close>

lemma Buffer_compare_eq: "Buffer_compare a b = 0 \<longleftrightarrow> a = b"
  by (induction a b rule: Buffer_compare.induct) auto

text \<open>\<open>range(0x50, 0x60)\<close> lists exactly the integers from \<open>0x50\<close> up to \<open>0x5F\<close>.\<close>

lemma set_range_ts_self_stream: "set (range_ts 0x50 0x60 1) = {x. 0x50 \<le> x \<and> x < 0x60}"
proof -
  have "set (range_ts 0x50 0x60 1) = {x. x < 96 \<and> x \<in> (\<lambda>i. 80 + int i) ` {0..<16}}"
    by (auto simp: range_ts_def)
  also have "\<dots> = {x. 80 \<le> x \<and> x < 96}"
  proof (rule set_eqI, rule iffI)
    fix x :: int
    assume "x \<in> {x. x < 96 \<and> x \<in> (\<lambda>i. 80 + int i) ` {0..<16}}"
    then show "x \<in> {x. 80 \<le> x \<and> x < 96}" by auto
  next
    fix x :: int
    assume "x \<in> {x. 80 \<le> x \<and> x < 96}"
    then have b: "80 \<le> x" "x < 96" by auto
    then have "x = 80 + int (nat (x - 80))" "nat (x - 80) \<in> {0..<16}" by auto
    then have "x \<in> (\<lambda>i. 80 + int i) ` {0..<16}" by (rule image_eqI)
    with b show "x \<in> {x. x < 96 \<and> x \<in> (\<lambda>i. 80 + int i) ` {0..<16}}" by simp
  qed
  finally show ?thesis by simp
qed

lemma includes_range_self_stream:
  "array_includes (range_ts 0x50 0x60 1) x \<longleftrightarrow> 0x50 \<le> x \<and> x < 0x60"
  by (simp add: array_includes_def set_range_ts_self_stream)

text \<open>\<open>split\<close> never returns the empty array: a flag that is given makes its list non-empty.\<close>

lemma string_split_not_Nil: "string_split sep s \<noteq> []"
  by (induction s) (auto split: list.splits)

subsection \<open>The loop over the events\<close>

lemma format_events_Cons_Inr:
  assumes "format_events lib ids det (ev # evs) = Inr (fevs, flag)"
  obtains fev fevs' where "format_event lib ev = Inr fev"
    and "format_events lib ids
           (if length ids > 0 \<and> array_includes ids (Num (event_id ev)) then True else det) evs
         = Inr (fevs', flag)"
    and "fevs = fev # fevs'"
  using assms by (auto simp: Let_def split: sum.splits prod.splits)

text \<open>
  The formatted events do not depend on the allow-list; the flag says whether the list is
  not empty and holds the id of some event.
\<close>

lemma format_events_other_ids:
  "format_events lib ids det evs = Inr (fevs, flag) \<Longrightarrow>
   format_events lib ids' det' evs =
     Inr (fevs, det' \<or> (ids' \<noteq> [] \<and> (\<exists>ev \<in> set evs. Num (event_id ev) \<in> set ids')))"
proof (induction evs arbitrary: det det' fevs)
  case Nil
  then show ?case by simp
next
  case (Cons ev evs)
  from Cons.prems obtain fev fevs' where
    fev: "format_event lib ev = Inr fev" and
    rest: "format_events lib ids
             (if length ids > 0 \<and> array_includes ids (Num (event_id ev)) then True else det) evs
           = Inr (fevs', flag)" and
    fevs: "fevs = fev # fevs'"
    by (rule format_events_Cons_Inr)
  let ?d = "if length ids' > 0 \<and> array_includes ids' (Num (event_id ev)) then True else det'"
  have "format_events lib ids' ?d evs =
     Inr (fevs', ?d \<or> (ids' \<noteq> [] \<and> (\<exists>ev \<in> set evs. Num (event_id ev) \<in> set ids')))"
    using rest by (rule Cons.IH)
  then show ?case
    using fev fevs by (auto simp: Let_def array_includes_def)
qed

lemma format_events_event_ids:
  "format_events lib ids det evs = Inr (fevs, flag) \<Longrightarrow> map event_id fevs = map event_id evs"
proof (induction evs arbitrary: det fevs)
  case Nil
  then show ?case by simp
next
  case (Cons ev evs)
  then show ?case
    by (auto simp: Let_def format_event_def split: sum.splits if_splits prod.splits)
qed

subsection \<open>The table-id filter\<close>

text \<open>
  C1. A table whose \<open>table_id\<close> lies outside the half-open range from \<open>0x50\<close> to \<open>0x60\<close>
  and is not \<open>0x4E\<close> produces no output, whatever the library and the configuration are. A
  table whose \<open>table_id\<close> lies in that range or equals \<open>0x4E\<close>, and whose event list is
  present, goes on to the rest of the handler (lines 91 to 162).
\<close>

theorem C1_table_id_filter:
  "(\<not> (0x50 \<le> table_id eit \<and> table_id eit < 0x60) \<and> table_id eit \<noteq> 0x4E
      \<longrightarrow> on_eit lib cfg eit = Inr [])
   \<and> (((0x50 \<le> table_id eit \<and> table_id eit < 0x60) \<or> table_id eit = 0x4E)
        \<and> events eit = Some evs
      \<longrightarrow> on_eit lib cfg eit = eit_filtered lib cfg eit evs)"
  by (auto simp: on_eit_def includes_range_self_stream split: option.splits)

text \<open>
  With no flag but the input path: the tables \<open>0x4F\<close> and \<open>0x60\<close> print nothing, the
  table \<open>0x5F\<close> is printed.
\<close>

theorem C1_table_id_filter_witness:
  "on_eit sample_library (configure no_options) (sample_eit 0x4F 1024 0 (Some [])) = Inr []
   \<and> on_eit sample_library (configure no_options) (sample_eit 0x60 1024 0 (Some [])) = Inr []
   \<and> on_eit sample_library (configure no_options) (sample_eit 0x5F 1024 0 (Some [])) =
       Inr [Log ''EIT (Event Information Table) [schedule] [service_id: 1024]'',
            Log separator,
            Dir_eit \<lparr>table_id = 0x5F, service_id = 1024, section_number = 0, events = Some [],
                     eit_raw = None\<rparr>,
            Log separator]"
proof -
  have a: "on_eit sample_library (configure no_options) (sample_eit 0x4F 1024 0 (Some [])) = Inr []"
    using C1_table_id_filter [where eit = "sample_eit 0x4F 1024 0 (Some [])" and lib = sample_library
        and cfg = "configure no_options"]
    by (simp add: sample_eit_def)
  have b: "on_eit sample_library (configure no_options) (sample_eit 0x60 1024 0 (Some [])) = Inr []"
    using C1_table_id_filter [where eit = "sample_eit 0x60 1024 0 (Some [])" and lib = sample_library
        and cfg = "configure no_options"]
    by (simp add: sample_eit_def)
  have c: "on_eit sample_library (configure no_options) (sample_eit 0x5F 1024 0 (Some []))
           = eit_filtered sample_library (configure no_options) (sample_eit 0x5F 1024 0 (Some [])) []"
    using C1_table_id_filter [where eit = "sample_eit 0x5F 1024 0 (Some [])" and evs = "[]"
        and lib = sample_library and cfg = "configure no_options"]
    by (simp add: sample_eit_def)
  have d: "eit_filtered sample_library (configure no_options) (sample_eit 0x5F 1024 0 (Some [])) [] =
       Inr [Log ''EIT (Event Information Table) [schedule] [service_id: 1024]'',
            Log separator,
            Dir_eit \<lparr>table_id = 0x5F, service_id = 1024, section_number = 0, events = Some [],
                     eit_raw = None\<rparr>,
            Log separator]"
    by code_simp
  show ?thesis using a b c d by simp
qed

subsection \<open>The allow-lists\<close>

text \<open>A flag that is given is split at the commas; a flag that is absent leaves the list empty.\<close>

lemma filter_lists_configured:
  "eitTypes opts = Some s \<Longrightarrow> filterEitTypes (configure opts) = string_split (CHR '','') s"
  "serviceIds opts = Some s \<Longrightarrow>
     filterServiceIds (configure opts) = map parseInt (string_split (CHR '','') s)"
  "eventIds opts = Some s \<Longrightarrow>
     filterEventIds (configure opts) = map parseInt (string_split (CHR '','') s)"
  "eitTypes opts = None \<Longrightarrow> filterEitTypes (configure opts) = []"
  "serviceIds opts = None \<Longrightarrow> filterServiceIds (configure opts) = []"
  "eventIds opts = None \<Longrightarrow> filterEventIds (configure opts) = []"
  by (simp_all add: configure_def)

lemma filter_lists_not_Nil:
  "eitTypes opts = Some s \<Longrightarrow> filterEitTypes (configure opts) \<noteq> []"
  "serviceIds opts = Some s \<Longrightarrow> filterServiceIds (configure opts) \<noteq> []"
  "eventIds opts = Some s \<Longrightarrow> filterEventIds (configure opts) \<noteq> []"
  by (simp_all add: filter_lists_configured string_split_not_Nil)

subsection \<open>Classification and the type filter\<close>

text \<open>
  C2. The type of a table is \<open>present\<close> when \<open>table_id\<close> is \<open>0x4E\<close> and
  \<open>section_number\<close> is \<open>0\<close>, \<open>following\<close> when \<open>table_id\<close> is \<open>0x4E\<close> and
  \<open>section_number\<close> is not \<open>0\<close>, and \<open>schedule\<close> for every \<open>table_id\<close> from \<open>0x50\<close>
  up to \<open>0x5F\<close>. When \<open>--eit-types\<close> is given, a table whose type is not in the list
  produces no output; a table whose type is in the list is handled as if no type list
  were configured.
\<close>

theorem C2_type_filter:
  "(table_id eit = 0x4E \<and> section_number eit = 0 \<longrightarrow> eit_type eit = ''present'')
   \<and> (table_id eit = 0x4E \<and> section_number eit \<noteq> 0 \<longrightarrow> eit_type eit = ''following'')
   \<and> (0x50 \<le> table_id eit \<and> table_id eit < 0x60 \<longrightarrow> eit_type eit = ''schedule'')
   \<and> (eitTypes opts = Some s \<and> eit_type eit \<notin> set (filterEitTypes (configure opts))
        \<longrightarrow> on_eit lib (configure opts) eit = Inr [])
   \<and> (eit_type eit \<in> set (filterEitTypes cfg)
        \<longrightarrow> on_eit lib cfg eit = on_eit lib (cfg\<lparr>filterEitTypes := []\<rparr>) eit)"
proof (intro conjI impI)
  assume "eitTypes opts = Some s \<and> eit_type eit \<notin> set (filterEitTypes (configure opts))"
  then have "filterEitTypes (configure opts) \<noteq> []"
    and "\<not> array_includes (filterEitTypes (configure opts)) (eit_type eit)"
    by (simp_all add: filter_lists_not_Nil array_includes_def)
  then show "on_eit lib (configure opts) eit = Inr []"
    by (simp add: on_eit_def eit_filtered_def split: option.splits)
next
  assume "eit_type eit \<in> set (filterEitTypes cfg)"
  then have "array_includes (filterEitTypes cfg) (eit_type eit)"
    by (simp add: array_includes_def)
  then show "on_eit lib cfg eit = on_eit lib (cfg\<lparr>filterEitTypes := []\<rparr>) eit"
    by (simp add: on_eit_def eit_filtered_def split: option.splits sum.splits prod.splits)
qed (simp_all add: eit_type_def)

text \<open>
  With \<open>--eit-types present\<close>, of a \<open>present\<close> and a \<open>following\<close> table only the first is
  printed.
\<close>

theorem C2_type_filter_witness:
  "eit_type (sample_eit 0x4E 1024 0 (Some [])) = ''present''
   \<and> eit_type (sample_eit 0x4E 1024 1 (Some [])) = ''following''
   \<and> eit_type (sample_eit 0x51 1024 0 (Some [])) = ''schedule''
   \<and> on_eit sample_library (configure (no_options\<lparr>eitTypes := Some ''present''\<rparr>))
        (sample_eit 0x4E 1024 1 (Some [])) = Inr []
   \<and> on_eit sample_library (configure (no_options\<lparr>eitTypes := Some ''present''\<rparr>))
        (sample_eit 0x4E 1024 0 (Some [])) =
       Inr [Log ''EIT (Event Information Table) [present] [service_id: 1024]'',
            Log separator,
            Dir_eit \<lparr>table_id = 0x4E, service_id = 1024, section_number = 0, events = Some [],
                     eit_raw = None\<rparr>,
            Log separator]"
proof -
  let ?opts = "no_options\<lparr>eitTypes := Some ''present''\<rparr>"
  let ?present = "sample_eit 0x4E 1024 0 (Some [])"
  let ?following = "sample_eit 0x4E 1024 1 (Some [])"
  let ?schedule = "sample_eit 0x51 1024 0 (Some [])"
  have types: "filterEitTypes (configure ?opts) = [''present'']"
    by (simp add: configure_def no_options_def)
  have a: "eit_type ?present = ''present''"
    using C2_type_filter [where eit = ?present and opts = ?opts and s = "''present''"
        and lib = sample_library and cfg = "configure ?opts"]
    by (simp add: sample_eit_def)
  have b: "eit_type ?following = ''following''"
    using C2_type_filter [where eit = ?following and opts = ?opts and s = "''present''"
        and lib = sample_library and cfg = "configure ?opts"]
    by (simp add: sample_eit_def)
  have c: "eit_type ?schedule = ''schedule''"
    using C2_type_filter [where eit = ?schedule and opts = ?opts and s = "''present''"
        and lib = sample_library and cfg = "configure ?opts"]
    by (simp add: sample_eit_def)
  have d: "on_eit sample_library (configure ?opts) ?following = Inr []"
    using C2_type_filter [where eit = ?following and opts = ?opts and s = "''present''"
        and lib = sample_library and cfg = "configure ?opts"] b types
    by (simp add: no_options_def)
  have e: "on_eit sample_library (configure ?opts) ?present
           = on_eit sample_library ((configure ?opts)\<lparr>filterEitTypes := []\<rparr>) ?present"
    using C2_type_filter [where eit = ?present and opts = ?opts and s = "''present''"
        and lib = sample_library and cfg = "configure ?opts"] a types
    by simp
  have f: "on_eit sample_library ((configure ?opts)\<lparr>filterEitTypes := []\<rparr>) ?present =
       Inr [Log ''EIT (Event Information Table) [present] [service_id: 1024]'',
            Log separator,
            Dir_eit \<lparr>table_id = 0x4E, service_id = 1024, section_number = 0, events = Some [],
                     eit_raw = None\<rparr>,
            Log separator]"
    by code_simp
  show ?thesis using a b c d e f by simp
qed

subsection \<open>An absent event list\<close>

text \<open>
  C6. A table whose event list is absent produces no output, whatever its other fields,
  the configuration and the decoders are: the handler returns at line 86, before any
  field is read or decoded.
\<close>

theorem C6_absent_event_list:
  "events eit = None \<Longrightarrow> on_eit lib cfg eit = Inr []"
  by (simp add: on_eit_def)

text \<open>
  A table with an accepted \<open>table_id\<close> and no filter configured, whose event list is
  absent.
\<close>

theorem C6_absent_event_list_witness:
  "events (sample_eit 0x4E 1024 0 None) = None
   \<and> on_eit sample_library (configure no_options) (sample_eit 0x4E 1024 0 None) = Inr []"
proof -
  have absent: "events (sample_eit 0x4E 1024 0 None) = None"
    by (simp add: sample_eit_def)
  from absent show ?thesis
    using C6_absent_event_list [OF absent, of sample_library "configure no_options"] by simp
qed

subsection \<open>Times and durations\<close>

text \<open>
  The start time: \<open>Infinity\<close> for the five bytes \<open>FF\<close>, and otherwise the string that the
  date-time decoder and formatter of the library return for the bytes. The decoder is not
  called on the five bytes \<open>FF\<close>.
\<close>

lemma format_start_time_cases:
  "format_start_time lib b =
     (if b = UNKNOWN_START_TIME then Infinity else Str (format_datetime lib b))"
  by (auto simp: format_start_time_def Buffer_compare_eq)

lemma format_duration_cases:
  "format_duration lib b =
     (if b = UNKNOWN_DURATION then Infinity
      else (case TsDate_decodeTime lib b of (h, m, s) \<Rightarrow> Number (h * 3600 + m * 60 + s)))"
  by (auto simp: format_duration_def Buffer_compare_eq)

lemma format_event_fields:
  "format_event lib ev = Inr fev \<Longrightarrow>
   event_id fev = event_id ev
   \<and> start_time fev = format_start_time lib (start_time ev)
   \<and> duration fev = format_duration lib (duration ev)"
  by (auto simp: format_event_def split: sum.splits)

text \<open>Every event leaves the loop with its start time and its duration formatted.\<close>

lemma format_events_fields:
  "format_events lib ids det evs = Inr (fevs, flag) \<Longrightarrow>
   map start_time fevs = map (\<lambda>ev. format_start_time lib (start_time ev)) evs
   \<and> map duration fevs = map (\<lambda>ev. format_duration lib (duration ev)) evs"
proof (induction evs arbitrary: det fevs)
  case Nil
  then show ?case by simp
next
  case (Cons ev evs)
  from Cons.prems obtain fev fevs' where
    fev: "format_event lib ev = Inr fev" and
    rest: "format_events lib ids
             (if length ids > 0 \<and> array_includes ids (Num (event_id ev)) then True else det) evs
           = Inr (fevs', flag)" and
    fevs: "fevs = fev # fevs'"
    by (rule format_events_Cons_Inr)
  from rest have "map start_time fevs' = map (\<lambda>ev. format_start_time lib (start_time ev)) evs
     \<and> map duration fevs' = map (\<lambda>ev. format_duration lib (duration ev)) evs"
    by (rule Cons.IH)
  with fev fevs show ?case
    by (simp add: format_event_fields)
qed

text \<open>
  A table that the handler dumps is the received table with the events that left the
  loop of lines 105 to 151.
\<close>

lemma on_eit_printed:
  assumes "on_eit lib cfg eit = Inr out" and "Dir_eit feit \<in> set out"
  obtains evs fevs flag where "events eit = Some evs" and "events feit = Some fevs"
    and "format_events lib (filterEventIds cfg) False evs = Inr (fevs, flag)"
proof (cases "events eit")
  case None
  with assms show ?thesis by (simp add: on_eit_def)
next
  case (Some evs)
  show ?thesis
  proof (cases "format_events lib (filterEventIds cfg) False evs")
    case (Inl err)
    with Some assms show ?thesis
      by (auto simp: on_eit_def eit_filtered_def split: if_splits)
  next
    case (Inr r)
    obtain fevs flag where r: "r = (fevs, flag)" by (cases r)
    with Inr Some assms have "events feit = Some fevs"
      by (auto simp: on_eit_def eit_filtered_def split: if_splits)
    with Some Inr r show ?thesis by (auto intro: that)
  qed
qed

text \<open>
  C4. In every table that the handler prints, the duration of each event is \<open>Infinity\<close>
  when its raw value is the three bytes \<open>FF\<close>, and for every other raw value the
  number \<open>hours * 3600 + minutes * 60 + seconds\<close> of the triple that \<open>decodeTime\<close>
  returns for it. With \<open>decodeTime\<close> the BCD decoder, three bytes \<open>h m s\<close> other than the
  sentinel give the number computed from their BCD values, and the bytes \<open>01 30 00\<close>
  give \<open>5400\<close>.
\<close>

theorem C4_duration:
  "(on_eit lib cfg eit = Inr out \<and> Dir_eit feit \<in> set out \<and> events eit = Some evs \<longrightarrow>
      map_option (map duration) (events feit) =
        Some (map (\<lambda>ev. if duration ev = UNKNOWN_DURATION then Infinity
                         else (case TsDate_decodeTime lib (duration ev) of
                                 (h, m, s) \<Rightarrow> Number (h * 3600 + m * 60 + s))) evs))
   \<and> (format_event lib ev = Inr fev \<longrightarrow> duration fev = format_duration lib (duration ev))
   \<and> format_duration lib UNKNOWN_DURATION = Infinity
   \<and> (b \<noteq> UNKNOWN_DURATION \<longrightarrow>
        format_duration lib b =
          (case TsDate_decodeTime lib b of (h, m, s) \<Rightarrow> Number (h * 3600 + m * 60 + s)))
   \<and> ([h, m, s] \<noteq> UNKNOWN_DURATION \<longrightarrow>
        format_duration (lib\<lparr>TsDate_decodeTime := spec_decodeTime\<rparr>) [h, m, s] =
          Number (bcd h * 3600 + bcd m * 60 + bcd s))
   \<and> format_duration (lib\<lparr>TsDate_decodeTime := spec_decodeTime\<rparr>) [0x01, 0x30, 0x00] = Number 5400"
proof (intro conjI impI)
  assume h: "on_eit lib cfg eit = Inr out \<and> Dir_eit feit \<in> set out \<and> events eit = Some evs"
  then obtain evs' fevs flag where "events eit = Some evs'" and fevs: "events feit = Some fevs"
    and "format_events lib (filterEventIds cfg) False evs' = Inr (fevs, flag)"
    by (auto elim: on_eit_printed)
  with h have "format_events lib (filterEventIds cfg) False evs = Inr (fevs, flag)"
    by simp
  then have "map duration fevs = map (\<lambda>ev. format_duration lib (duration ev)) evs"
    by (simp add: format_events_fields)
  with fevs show "map_option (map duration) (events feit) =
        Some (map (\<lambda>ev. if duration ev = UNKNOWN_DURATION then Infinity
                         else (case TsDate_decodeTime lib (duration ev) of
                                 (h, m, s) \<Rightarrow> Number (h * 3600 + m * 60 + s))) evs)"
    by (simp add: format_duration_cases)
next
  show "format_duration (lib\<lparr>TsDate_decodeTime := spec_decodeTime\<rparr>) [0x01, 0x30, 0x00] = Number 5400"
    by (simp add: format_duration_cases UNKNOWN_DURATION_def bcd_def)
qed (simp_all add: format_duration_cases format_event_fields)

text \<open>
  A table with an event of unknown duration and an event of one hour and a half, printed
  with the sample library: the dump holds \<open>Infinity\<close> and \<open>5400\<close>.
\<close>

theorem C4_duration_witness:
  "on_eit sample_library (configure no_options)
     (sample_eit 0x50 1024 0
        (Some [\<lparr>event_id = 1, start_time = UNKNOWN_START_TIME, duration = [0xFF, 0xFF, 0xFF],
                 descriptors = []\<rparr>,
               sample_event 2])) =
     Inr [Log ''EIT (Event Information Table) [schedule] [service_id: 1024]'',
          Log separator,
          Dir_eit
            \<lparr>table_id = 0x50, service_id = 1024, section_number = 0,
             events = Some
               [\<lparr>event_id = 1, start_time = Infinity, duration = Infinity, descriptors = []\<rparr>,
                \<lparr>event_id = 2, start_time = Infinity, duration = Number 5400,
                  descriptors = []\<rparr>],
             eit_raw = None\<rparr>,
          Log separator]
   \<and> map (\<lambda>ev. if duration ev = UNKNOWN_DURATION then Infinity
                 else (case TsDate_decodeTime sample_library (duration ev) of
                         (h, m, s) \<Rightarrow> Number (h * 3600 + m * 60 + s)))
         [\<lparr>event_id = 1, start_time = UNKNOWN_START_TIME, duration = [0xFF, 0xFF, 0xFF],
            descriptors = []\<rparr>,
          sample_event 2]
       = [Infinity, Number 5400]
   \<and> format_event sample_library (sample_event 100) =
       Inr \<lparr>event_id = 100, start_time = Infinity, duration = Number 5400, descriptors = []\<rparr>
   \<and> format_duration sample_library [0xFF, 0xFF, 0xFF] = Infinity
   \<and> format_duration sample_library [0x23, 0x59, 0x59] = Number 86399"
proof -
  let ?evs = "[\<lparr>event_id = 1, start_time = UNKNOWN_START_TIME, duration = [0xFF, 0xFF, 0xFF],
                  descriptors = []\<rparr>,
               sample_event 2]"
  let ?eit = "sample_eit 0x50 1024 0 (Some ?evs)"
  let ?feit = "\<lparr>table_id = 0x50, service_id = 1024, section_number = 0,
             events = Some
               [\<lparr>event_id = 1, start_time = Infinity, duration = Infinity, descriptors = []\<rparr>,
                \<lparr>event_id = 2, start_time = Infinity, duration = Number 5400,
                  descriptors = []\<rparr>],
             eit_raw = None\<rparr> :: field eit"
  let ?out = "[Log ''EIT (Event Information Table) [schedule] [service_id: 1024]'',
          Log separator, Dir_eit ?feit, Log separator]"
  let ?fev = "\<lparr>event_id = 100, start_time = Infinity, duration = Number 5400, descriptors = []\<rparr>
              :: field event"
  note inst = C4_duration [where lib = sample_library and cfg = "configure no_options"
      and eit = ?eit and out = ?out and feit = ?feit and evs = ?evs
      and ev = "sample_event 100" and fev = ?fev
      and b = "[0x23, 0x59, 0x59]" and h = "0x23" and m = "0x59" and s = "0x59"]
  have printed: "on_eit sample_library (configure no_options) ?eit = Inr ?out"
    by code_simp
  have evs: "events ?eit = Some ?evs"
    by (simp add: sample_eit_def)
  have lib: "sample_library\<lparr>TsDate_decodeTime := spec_decodeTime\<rparr> = sample_library"
    by (simp add: sample_library_def)
  have ev: "format_event sample_library (sample_event 100) = Inr ?fev"
    by code_simp
  have triple: "TsDate_decodeTime sample_library [0x23, 0x59, 0x59] = (23, 59, 59)"
    by (simp add: sample_library_def bcd_def)
  have a: "map_option (map duration) (events ?feit) =
        Some (map (\<lambda>ev. if duration ev = UNKNOWN_DURATION then Infinity
                         else (case TsDate_decodeTime sample_library (duration ev) of
                                 (h, m, s) \<Rightarrow> Number (h * 3600 + m * 60 + s))) ?evs)"
    using inst printed evs by simp
  then have a': "map (\<lambda>ev. if duration ev = UNKNOWN_DURATION then Infinity
                         else (case TsDate_decodeTime sample_library (duration ev) of
                                 (h, m, s) \<Rightarrow> Number (h * 3600 + m * 60 + s))) ?evs
                 = [Infinity, Number 5400]"
    by simp
  have b: "format_duration sample_library [0xFF, 0xFF, 0xFF] = Infinity"
    using inst by (simp add: UNKNOWN_DURATION_def)
  have c: "format_duration sample_library [0x23, 0x59, 0x59] = Number 86399"
    using inst lib triple by (simp add: UNKNOWN_DURATION_def bcd_def)
  show ?thesis using printed a' ev b c by simp
qed

subsection \<open>The calendar date of a Modified Julian Day\<close>

lemma int_div_bounds:
  fixes x k :: int
  assumes "0 < k"
  shows "k * (x div k) \<le> x" and "x < k * (x div k) + k"
proof -
  have "x = k * (x div k) + x mod k" by simp
  moreover have "0 \<le> x mod k" "x mod k < k" using assms by simp_all
  ultimately show "k * (x div k) \<le> x" and "x < k * (x div k) + k" by linarith+
qed

text \<open>
  From 1 March 1900 to the last day that sixteen bits can hold, the rule gives a year of
  four digits, a month from 1 to 12 and a day from 1 to 31.
\<close>

lemma mjd_date_bounds:
  assumes lo: "15079 \<le> mjd" and hi: "mjd \<le> 65535" and eq: "mjd_date mjd = (y, m, d)"
  shows "1900 \<le> y \<and> y \<le> 2038 \<and> 1 \<le> m \<and> m \<le> 12 \<and> 1 \<le> d \<and> d \<le> 31"
proof -
  define y0 where "y0 = (100 * mjd - 1507820) div 36525"
  define a where "a = (y0 * 36525) div 100"
  define t where "t = mjd - a"
  define m0 where "m0 = (10000 * t - 149561000) div 306001"
  define c where "c = (m0 * 306001) div 10000"
  define k :: int where "k = (if m0 = 14 \<or> m0 = 15 then 1 else 0)"
  have y: "y = y0 + k + 1900" and m: "m = m0 - 1 - k * 12" and d: "d = t - 14956 - c"
    using eq by (simp_all add: mjd_date_def Let_def y0_def a_def t_def m0_def c_def k_def)
  have y0: "36525 * y0 \<le> 100 * mjd - 1507820" "100 * mjd - 1507820 < 36525 * y0 + 36525"
    unfolding y0_def by (rule int_div_bounds, simp)+
  have a: "100 * a \<le> y0 * 36525" "y0 * 36525 < 100 * a + 100"
    unfolding a_def by (rule int_div_bounds, simp)+
  have m0: "306001 * m0 \<le> 10000 * t - 149561000"
    "10000 * t - 149561000 < 306001 * m0 + 306001"
    unfolding m0_def by (rule int_div_bounds, simp)+
  have c: "10000 * c \<le> m0 * 306001" "m0 * 306001 < 10000 * c + 10000"
    unfolding c_def by (rule int_div_bounds, simp)+
  have y0_range: "0 \<le> y0" "y0 \<le> 138"
    using y0 lo hi by linarith+
  have t_range: "15079 \<le> t" "t \<le> 15444"
    using y0 a unfolding t_def by linarith+
  have m0_range: "4 \<le> m0" "m0 \<le> 15"
    using m0 t_range by linarith+
  have d_range: "1 \<le> d" "d \<le> 31"
    using m0 c d by linarith+
  have k_range: "k = 0 \<or> k = 1" by (simp add: k_def)
  have m_range: "1 \<le> m" "m \<le> 12"
    using m0_range m by (auto simp: k_def)
  have "y0 = 138 \<longrightarrow> k = 0"
  proof
    assume "y0 = 138"
    with y0 a hi have "t \<le> 15131" unfolding t_def by linarith
    with m0 have "m0 \<le> 5" by linarith
    then show "k = 0" by (simp add: k_def)
  qed
  with y0_range k_range y have "1900 \<le> y" "y \<le> 2038" by linarith+
  with m_range d_range show ?thesis by simp
qed

subsection \<open>The shape of a timestamp\<close>

lemma matches_append:
  "length ps = length cs \<Longrightarrow> matches (ps @ qs) (cs @ ds) = (matches ps cs \<and> matches qs ds)"
  by (induction ps cs rule: list_induct2) auto

lemma matches_digits:
  "length cs = n \<Longrightarrow> matches (replicate n (CHR ''d'')) cs = (\<forall>c \<in> set cs. is_radix_digit 10 c)"
  by (induction cs arbitrary: n) auto

lemma decimal_digits: "c \<in> set (decimal n) \<Longrightarrow> is_radix_digit 10 c"
proof (induction n arbitrary: c rule: decimal.induct)
  case (1 n)
  have last: "is_radix_digit 10 (char_of (48 + n mod 10))"
  proof -
    have "of_char (char_of (48 + n mod 10)) = 48 + n mod 10"
      by (simp add: mod_less)
    moreover have "n mod 10 < 10" by simp
    ultimately show ?thesis
      by (simp add: is_radix_digit_def digit_of_def Let_def)
  qed
  show ?case
  proof (cases "n < 10")
    case True
    with "1.prems" last show ?thesis
      by (simp add: decimal.simps [of n])
  next
    case False
    with "1.prems" "1.IH" last show ?thesis
      by (auto simp: decimal.simps [of n])
  qed
qed

lemma length_decimal:
  "n < 10 \<Longrightarrow> length (decimal n) = 1"
  "10 \<le> n \<Longrightarrow> n < 100 \<Longrightarrow> length (decimal n) = 2"
  "1000 \<le> n \<Longrightarrow> n < 10000 \<Longrightarrow> length (decimal n) = 4"
proof -
  show one: "length (decimal n) = 1" if "n < 10" for n
    using that by (simp add: decimal.simps [of n])
  show two: "length (decimal n) = 2" if "10 \<le> n" "n < 100" for n
  proof -
    from that have "n div 10 < 10" by simp
    with that show ?thesis by (simp add: decimal.simps [of n] one)
  qed
  have three: "length (decimal n) = 3" if "100 \<le> n" "n < 1000" for n
  proof -
    from that have "10 \<le> n div 10" "n div 10 < 100" by simp_all
    with that show ?thesis by (simp add: decimal.simps [of n] two)
  qed
  show "length (decimal n) = 4" if "1000 \<le> n" "n < 10000"
  proof -
    from that have "100 \<le> n div 10" "n div 10 < 1000" by simp_all
    with that show ?thesis by (simp add: decimal.simps [of n] three)
  qed
qed

lemma pad_start_digits: "c \<in> set (pad_start w i) \<Longrightarrow> is_radix_digit 10 c"
proof -
  have zero: "is_radix_digit 10 (CHR ''0'')"
    by (simp add: is_radix_digit_def digit_of_def)
  assume "c \<in> set (pad_start w i)"
  then have "c = CHR ''0'' \<or> c \<in> set (decimal (nat i))"
    by (auto simp: pad_start_def Let_def)
  with zero show ?thesis
    by (auto simp: decimal_digits)
qed

lemma length_pad_start_2: "0 \<le> i \<Longrightarrow> i \<le> 99 \<Longrightarrow> length (pad_start 2 i) = 2"
  by (cases "nat i < 10") (simp_all add: pad_start_def Let_def length_decimal)

lemma length_pad_start_4: "1000 \<le> i \<Longrightarrow> i \<le> 9999 \<Longrightarrow> length (pad_start 4 i) = 4"
  by (simp add: pad_start_def Let_def length_decimal)

lemma bcd_bounds: "valid_bcd b \<Longrightarrow> 0 \<le> bcd b \<and> bcd b \<le> 99"
  by (simp add: valid_bcd_def bcd_def)

text \<open>
  A date-time with a year of four digits and every other field of at most two digits is
  rendered in the shape of an offset timestamp.
\<close>

lemma spec_format_shape:
  assumes "1000 \<le> year c" "year c \<le> 9999" "0 \<le> month c" "month c \<le> 99"
    "0 \<le> day c" "day c \<le> 99" "0 \<le> hour c" "hour c \<le> 99"
    "0 \<le> minute c" "minute c \<le> 99" "0 \<le> second c" "second c \<le> 99"
  shows "is_offset_timestamp (spec_format c)"
proof -
  have pat: "''dddd-dd-ddTdd:dd:ddsdd:dd'' =
      replicate 4 (CHR ''d'') @ ''-'' @ replicate 2 (CHR ''d'') @ ''-'' @ replicate 2 (CHR ''d'')
        @ ''T'' @ replicate 2 (CHR ''d'') @ '':'' @ replicate 2 (CHR ''d'') @ '':''
        @ replicate 2 (CHR ''d'') @ ''sdd:dd''"
    by code_simp
  have zone: "matches ''sdd:dd'' ''+09:00''"
    by (simp add: is_radix_digit_def digit_of_def)
  have two: "matches (replicate 2 (CHR ''d'')) (pad_start 2 i)" if "0 \<le> i" "i \<le> 99" for i
    using that by (simp add: matches_digits length_pad_start_2 pad_start_digits)
  have four: "matches (replicate 4 (CHR ''d'')) (pad_start 4 (year c))"
    using assms(1,2) by (simp add: matches_digits length_pad_start_4 pad_start_digits)
  show ?thesis
    unfolding is_offset_timestamp_def spec_format_def pat
    using assms two four zone
    by (simp add: matches_append length_pad_start_2 length_pad_start_4)
qed

text \<open>
  Five bytes whose day is 1 March 1900 or later and whose time is three bytes of two
  decimal digits each are rendered in the shape of an offset timestamp.
\<close>

lemma spec_datetime_shape:
  assumes "15079 \<le> 256 * uint d1 + uint d2" and "valid_bcd h" "valid_bcd m" "valid_bcd s"
  shows "is_offset_timestamp (spec_format (spec_decode [d1, d2, h, m, s]))"
proof -
  obtain y mo d where date: "mjd_date (256 * uint d1 + uint d2) = (y, mo, d)"
    by (cases "mjd_date (256 * uint d1 + uint d2)")
  have "uint d1 \<le> 255" "uint d2 \<le> 255"
    using uint_bounded [of d1] uint_bounded [of d2] by simp_all
  then have "256 * uint d1 + uint d2 \<le> 65535" by linarith
  with assms(1)
  have "1900 \<le> y \<and> y \<le> 2038 \<and> 1 \<le> mo \<and> mo \<le> 12 \<and> 1 \<le> d \<and> d \<le> 31"
    using date by (rule mjd_date_bounds)
  with date assms(2-4) show ?thesis
    by (intro spec_format_shape) (simp_all add: bcd_bounds)
qed

subsection \<open>The service-id filter and the TOT handler\<close>

text \<open>
  C7. When \<open>--service-ids\<close> is given, a table whose \<open>service_id\<close> is not in the list
  produces no output. A TOT is printed whatever the three allow-lists are: the banner, a
  separator, the table, a separator, where \<open>JST_time\<close> is the string that the formatter
  of the library returns for the date that its date-time decoder returns for the raw
  bytes. The start time of every event of a printed EIT is, for bytes other than the
  unknown-start sentinel, the result of the same two calls. With the decoder and the
  formatter that the spec describes, \<open>JST_time\<close> is printed in the shape of an offset
  timestamp, for every day from 1 March 1900 on and every time of two decimal digits a
  field.
\<close>

theorem C7_service_filter_and_tot:
  "(serviceIds opts = Some s \<and> Num (service_id eit) \<notin> set (filterServiceIds (configure opts))
      \<longrightarrow> on_eit lib (configure opts) eit = Inr [])
   \<and> present lib cfg (TOT tot) =
       Inr [Log ''TOT (Time Offset Table)'',
            Log separator,
            Dir_tot \<lparr>JST_time = Str (dayjs_local_format lib (TsDate_decode lib (JST_time tot))),
                     tot_raw = None\<rparr>,
            Log separator]
   \<and> present lib cfg' (TOT tot) = present lib cfg (TOT tot)
   \<and> (on_eit lib cfg eit' = Inr out \<and> Dir_eit feit \<in> set out \<and> events eit' = Some evs \<longrightarrow>
        map_option (map start_time) (events feit) =
          Some (map (\<lambda>ev. if start_time ev = UNKNOWN_START_TIME then Infinity
                           else Str (dayjs_local_format lib (TsDate_decode lib (start_time ev))))
                  evs))
   \<and> (JST_time tot \<noteq> UNKNOWN_START_TIME
        \<longrightarrow> format_start_time lib (JST_time tot) =
            Str (dayjs_local_format lib (TsDate_decode lib (JST_time tot))))
   \<and> present spec_library cfg (TOT tot) =
       Inr [Log ''TOT (Time Offset Table)'',
            Log separator,
            Dir_tot \<lparr>JST_time = Str (spec_format (spec_decode (JST_time tot))), tot_raw = None\<rparr>,
            Log separator]
   \<and> (JST_time tot = [d1, d2, h, m, sec] \<and> 15079 \<le> 256 * uint d1 + uint d2
        \<and> valid_bcd h \<and> valid_bcd m \<and> valid_bcd sec
        \<longrightarrow> is_offset_timestamp (spec_format (spec_decode (JST_time tot))))"
proof (intro conjI impI)
  assume "serviceIds opts = Some s \<and> Num (service_id eit) \<notin> set (filterServiceIds (configure opts))"
  then have "filterServiceIds (configure opts) \<noteq> []"
    and "\<not> array_includes (filterServiceIds (configure opts)) (Num (service_id eit))"
    by (simp_all add: filter_lists_not_Nil array_includes_def)
  then show "on_eit lib (configure opts) eit = Inr []"
    by (simp add: on_eit_def eit_filtered_def split: option.splits)
next
  assume h: "on_eit lib cfg eit' = Inr out \<and> Dir_eit feit \<in> set out \<and> events eit' = Some evs"
  then obtain evs' fevs flag where "events eit' = Some evs'" and fevs: "events feit = Some fevs"
    and "format_events lib (filterEventIds cfg) False evs' = Inr (fevs, flag)"
    by (auto elim: on_eit_printed)
  with h have "format_events lib (filterEventIds cfg) False evs = Inr (fevs, flag)"
    by simp
  then have "map start_time fevs = map (\<lambda>ev. format_start_time lib (start_time ev)) evs"
    by (simp add: format_events_fields)
  with fevs show "map_option (map start_time) (events feit) =
          Some (map (\<lambda>ev. if start_time ev = UNKNOWN_START_TIME then Infinity
                           else Str (dayjs_local_format lib (TsDate_decode lib (start_time ev))))
                  evs)"
    by (simp add: format_start_time_cases format_datetime_def)
next
  assume "JST_time tot = [d1, d2, h, m, sec] \<and> 15079 \<le> 256 * uint d1 + uint d2
        \<and> valid_bcd h \<and> valid_bcd m \<and> valid_bcd sec"
  then have bytes: "JST_time tot = [d1, d2, h, m, sec]"
    and valid: "15079 \<le> 256 * uint d1 + uint d2" "valid_bcd h" "valid_bcd m" "valid_bcd sec"
    by simp_all
  show "is_offset_timestamp (spec_format (spec_decode (JST_time tot)))"
    unfolding bytes using valid by (rule spec_datetime_shape)
qed (simp_all add: on_tot_def format_start_time_cases format_datetime_def spec_library_def)

text \<open>
  With \<open>--service-ids 1024,2048\<close> a table of service 4096 prints nothing. With all three
  lists configured, the TOT of 13 October 1993, 12:45:00 (bytes \<open>C0 79 12 45 00\<close>) is
  printed as the library of the spec renders it, and an event that starts then, in a
  table that passes the lists, is printed with the same string.
\<close>

theorem C7_service_filter_and_tot_witness:
  "on_eit spec_library (configure (no_options\<lparr>serviceIds := Some ''1024,2048''\<rparr>))
      (sample_eit 0x4E 4096 0 (Some [sample_event 100])) = Inr []
   \<and> present spec_library
        (configure (no_options\<lparr>eitTypes := Some ''present'', serviceIds := Some ''1024,2048'',
                                eventIds := Some ''100''\<rparr>))
        (TOT \<lparr>JST_time = [0xC0, 0x79, 0x12, 0x45, 0x00], tot_raw = Some []\<rparr>) =
       Inr [Log ''TOT (Time Offset Table)'',
            Log separator,
            Dir_tot \<lparr>JST_time = Str ''1993-10-13T12:45:00+09:00'', tot_raw = None\<rparr>,
            Log separator]
   \<and> is_offset_timestamp ''1993-10-13T12:45:00+09:00''
   \<and> on_eit spec_library
        (configure (no_options\<lparr>eitTypes := Some ''present'', serviceIds := Some ''1024,2048'',
                                eventIds := Some ''100''\<rparr>))
        (sample_eit 0x4E 1024 0
           (Some [\<lparr>event_id = 100, start_time = [0xC0, 0x79, 0x12, 0x45, 0x00],
                    duration = [0x01, 0x30, 0x00], descriptors = []\<rparr>])) =
       Inr [Log ''EIT (Event Information Table) [present] [service_id: 1024]'',
            Log separator,
            Dir_eit
              \<lparr>table_id = 0x4E, service_id = 1024, section_number = 0,
               events = Some
                 [\<lparr>event_id = 100, start_time = Str ''1993-10-13T12:45:00+09:00'',
                    duration = Number 5400, descriptors = []\<rparr>],
               eit_raw = None\<rparr>,
            Log separator]
   \<and> map (\<lambda>ev. if start_time ev = UNKNOWN_START_TIME then Infinity
                 else Str (dayjs_local_format spec_library
                             (TsDate_decode spec_library (start_time ev))))
         [\<lparr>event_id = 100, start_time = [0xC0, 0x79, 0x12, 0x45, 0x00],
            duration = [0x01, 0x30, 0x00], descriptors = []\<rparr>]
       = [Str ''1993-10-13T12:45:00+09:00'']"
proof -
  let ?opts = "no_options\<lparr>serviceIds := Some ''1024,2048''\<rparr>"
  let ?all = "configure (no_options\<lparr>eitTypes := Some ''present'',
                 serviceIds := Some ''1024,2048'', eventIds := Some ''100''\<rparr>)"
  let ?eit = "sample_eit 0x4E 4096 0 (Some [sample_event 100])"
  let ?tot = "\<lparr>JST_time = [0xC0, 0x79, 0x12, 0x45, 0x00], tot_raw = Some []\<rparr> :: buffer tot"
  let ?evs = "[\<lparr>event_id = 100, start_time = [0xC0, 0x79, 0x12, 0x45, 0x00],
                  duration = [0x01, 0x30, 0x00], descriptors = []\<rparr>] :: buffer event list"
  let ?eit' = "sample_eit 0x4E 1024 0 (Some ?evs)"
  let ?feit = "\<lparr>table_id = 0x4E, service_id = 1024, section_number = 0,
               events = Some
                 [\<lparr>event_id = 100, start_time = Str ''1993-10-13T12:45:00+09:00'',
                    duration = Number 5400, descriptors = []\<rparr>],
               eit_raw = None\<rparr> :: field eit"
  let ?out = "[Log ''EIT (Event Information Table) [present] [service_id: 1024]'',
            Log separator, Dir_eit ?feit, Log separator]"
  note inst = C7_service_filter_and_tot [where opts = ?opts and s = "''1024,2048''" and eit = ?eit
      and lib = spec_library and cfg = ?all and cfg' = "configure no_options" and tot = ?tot
      and eit' = ?eit' and out = ?out and feit = ?feit and evs = ?evs
      and ?d1.0 = "0xC0" and ?d2.0 = "0x79" and h = "0x12" and m = "0x45" and sec = "0x00"]
  have ids: "filterServiceIds (configure ?opts) = [Num 1024, Num 2048]"
    by code_simp
  have str: "spec_format (spec_decode [0xC0, 0x79, 0x12, 0x45, 0x00]) = ''1993-10-13T12:45:00+09:00''"
    by code_simp
  have str': "dayjs_local_format spec_library (TsDate_decode spec_library [0xC0, 0x79, 0x12, 0x45, 0x00])
      = ''1993-10-13T12:45:00+09:00''"
    by code_simp
  have valid: "valid_bcd (0x12 :: byte)" "valid_bcd (0x45 :: byte)" "valid_bcd (0x00 :: byte)"
    by (simp_all add: valid_bcd_def)
  have printed: "on_eit spec_library ?all ?eit' = Inr ?out"
    by code_simp
  have a: "on_eit spec_library (configure ?opts) ?eit = Inr []"
    using inst ids by (simp add: no_options_def sample_eit_def)
  have b: "present spec_library ?all (TOT ?tot) =
       Inr [Log ''TOT (Time Offset Table)'', Log separator,
            Dir_tot \<lparr>JST_time = Str ''1993-10-13T12:45:00+09:00'', tot_raw = None\<rparr>,
            Log separator]"
    using inst str' by (simp del: spec_decode.simps)
  have c: "is_offset_timestamp ''1993-10-13T12:45:00+09:00''"
    using inst str valid by (simp del: spec_decode.simps)
  have d: "map_option (map start_time) (events ?feit) =
          Some (map (\<lambda>ev. if start_time ev = UNKNOWN_START_TIME then Infinity
                           else Str (dayjs_local_format spec_library
                                       (TsDate_decode spec_library (start_time ev)))) ?evs)"
    using inst printed by (simp add: sample_eit_def del: spec_decode.simps)
  then have d': "map (\<lambda>ev. if start_time ev = UNKNOWN_START_TIME then Infinity
                           else Str (dayjs_local_format spec_library
                                       (TsDate_decode spec_library (start_time ev)))) ?evs
                 = [Str ''1993-10-13T12:45:00+09:00'']"
    by simp
  show ?thesis using a b c printed d' by simp
qed

subsection \<open>The event-id filter\<close>

text \<open>What lines 153 to 162 do once the events are formatted.\<close>

lemma eit_filtered_formatted:
  assumes "filterServiceIds cfg = [] \<or> Num (service_id eit) \<in> set (filterServiceIds cfg)"
    and "filterEitTypes cfg = [] \<or> eit_type eit \<in> set (filterEitTypes cfg)"
    and "format_events lib ids' det' evs = Inr (fevs, flag')"
  shows "eit_filtered lib cfg eit evs =
     (if filterEventIds cfg \<noteq> []
         \<and> (evs = [] \<or> \<not> (\<exists>ev \<in> set evs. Num (event_id ev) \<in> set (filterEventIds cfg)))
      then Inr []
      else Inr [Log (banner eit), Log separator,
                Dir_eit \<lparr>table_id = table_id eit, service_id = service_id eit,
                         section_number = section_number eit, events = Some fevs,
                         eit_raw = None\<rparr>,
                Log separator])"
proof -
  have fmt: "format_events lib (filterEventIds cfg) False evs =
      Inr (fevs, False \<or> (filterEventIds cfg \<noteq> []
              \<and> (\<exists>ev \<in> set evs. Num (event_id ev) \<in> set (filterEventIds cfg))))"
    using assms(3) by (rule format_events_other_ids)
  have len: "length fevs = length evs"
    using format_events_event_ids [OF assms(3)] by (rule map_eq_imp_length_eq)
  have pass: "\<not> (length (filterServiceIds cfg) > 0
        \<and> array_includes (filterServiceIds cfg) (Num (service_id eit)) = False)"
    "\<not> (length (filterEitTypes cfg) > 0
        \<and> array_includes (filterEitTypes cfg) (eit_type eit) = False)"
    using assms(1,2) by (auto simp: array_includes_def)
  show ?thesis
    unfolding eit_filtered_def fmt using pass len by auto
qed

lemma eit_filtered_no_match:
  assumes "filterEventIds cfg \<noteq> []"
    and "\<forall>ev \<in> set evs. Num (event_id ev) \<notin> set (filterEventIds cfg)"
  shows "output_of (eit_filtered lib cfg eit evs) = []"
proof (cases "format_events lib (filterEventIds cfg) False evs")
  case (Inl err)
  then show ?thesis
    by (simp add: eit_filtered_def output_of_def)
next
  case (Inr r)
  obtain fevs flag where r: "r = (fevs, flag)" by (cases r)
  have "flag = (False \<or> (filterEventIds cfg \<noteq> []
              \<and> (\<exists>ev \<in> set evs. Num (event_id ev) \<in> set (filterEventIds cfg))))"
    using format_events_other_ids [of lib "filterEventIds cfg" False evs fevs flag
        "filterEventIds cfg" False] Inr r by simp
  with assms have "flag = False" by simp
  with Inr r assms(1) show ?thesis
    by (simp add: eit_filtered_def output_of_def)
qed

text \<open>
  C5. When \<open>--event-ids\<close> is given, a table none of whose events has an \<open>event_id\<close> in the
  list, a table with no event included, writes nothing to the sink. A table that has an
  event whose \<open>event_id\<close> is in the list, and that passes the table-id, service-id and
  type filters, is printed with all its events: the events printed are those that are
  printed with no event-id list configured, one for each event of the table, in order.
\<close>

theorem C5_event_id_filter:
  "(eventIds opts = Some s \<and> events eit = Some evs
      \<and> (\<forall>ev \<in> set evs. Num (event_id ev) \<notin> set (filterEventIds (configure opts)))
      \<longrightarrow> output_of (on_eit lib (configure opts) eit) = [])
   \<and> (eventIds opts = Some s \<and> events eit = Some evs
      \<and> (\<exists>ev \<in> set evs. Num (event_id ev) \<in> set (filterEventIds (configure opts)))
      \<and> ((0x50 \<le> table_id eit \<and> table_id eit < 0x60) \<or> table_id eit = 0x4E)
      \<and> (serviceIds opts = None \<or> Num (service_id eit) \<in> set (filterServiceIds (configure opts)))
      \<and> (eitTypes opts = None \<or> eit_type eit \<in> set (filterEitTypes (configure opts)))
      \<and> format_events lib [] False evs = Inr (fevs, flag)
      \<longrightarrow> on_eit lib (configure opts) eit =
            Inr [Log (banner eit), Log separator,
                 Dir_eit \<lparr>table_id = table_id eit, service_id = service_id eit,
                          section_number = section_number eit, events = Some fevs,
                          eit_raw = None\<rparr>,
                 Log separator]
          \<and> map event_id fevs = map event_id evs)"
proof (intro conjI impI)
  assume h: "eventIds opts = Some s \<and> events eit = Some evs
      \<and> (\<forall>ev \<in> set evs. Num (event_id ev) \<notin> set (filterEventIds (configure opts)))"
  then have "filterEventIds (configure opts) \<noteq> []"
    by (simp add: filter_lists_not_Nil)
  with h have "output_of (eit_filtered lib (configure opts) eit evs) = []"
    by (simp add: eit_filtered_no_match)
  with h show "output_of (on_eit lib (configure opts) eit) = []"
    by (simp add: on_eit_def output_of_def)
next
  assume h: "eventIds opts = Some s \<and> events eit = Some evs
      \<and> (\<exists>ev \<in> set evs. Num (event_id ev) \<in> set (filterEventIds (configure opts)))
      \<and> ((0x50 \<le> table_id eit \<and> table_id eit < 0x60) \<or> table_id eit = 0x4E)
      \<and> (serviceIds opts = None \<or> Num (service_id eit) \<in> set (filterServiceIds (configure opts)))
      \<and> (eitTypes opts = None \<or> eit_type eit \<in> set (filterEitTypes (configure opts)))
      \<and> format_events lib [] False evs = Inr (fevs, flag)"
  then have fmt: "format_events lib [] False evs = Inr (fevs, flag)" by simp
  from h have svc: "filterServiceIds (configure opts) = []
      \<or> Num (service_id eit) \<in> set (filterServiceIds (configure opts))"
    by (auto simp: filter_lists_configured)
  from h have tpe: "filterEitTypes (configure opts) = []
      \<or> eit_type eit \<in> set (filterEitTypes (configure opts))"
    by (auto simp: filter_lists_configured)
  from h have "on_eit lib (configure opts) eit = eit_filtered lib (configure opts) eit evs"
    by (auto simp: on_eit_def includes_range_self_stream)
  also from h have "\<dots> =
            Inr [Log (banner eit), Log separator,
                 Dir_eit \<lparr>table_id = table_id eit, service_id = service_id eit,
                          section_number = section_number eit, events = Some fevs,
                          eit_raw = None\<rparr>,
                 Log separator]"
    by (auto simp: eit_filtered_formatted [OF svc tpe fmt])
  finally show "on_eit lib (configure opts) eit =
            Inr [Log (banner eit), Log separator,
                 Dir_eit \<lparr>table_id = table_id eit, service_id = service_id eit,
                          section_number = section_number eit, events = Some fevs,
                          eit_raw = None\<rparr>,
                 Log separator]" .
  from fmt show "map event_id fevs = map event_id evs"
    by (rule format_events_event_ids)
qed

text \<open>
  With \<open>--event-ids 100\<close>: a table whose only event has id 200 and a table with no event
  print nothing; a table with the events 200 and 100 is printed with both.
\<close>

theorem C5_event_id_filter_witness:
  "output_of (on_eit sample_library (configure (no_options\<lparr>eventIds := Some ''100''\<rparr>))
      (sample_eit 0x4E 1024 0 (Some [sample_event 200]))) = []
   \<and> output_of (on_eit sample_library (configure (no_options\<lparr>eventIds := Some ''100''\<rparr>))
      (sample_eit 0x4E 1024 0 (Some []))) = []
   \<and> on_eit sample_library (configure (no_options\<lparr>eventIds := Some ''100''\<rparr>))
      (sample_eit 0x4E 1024 0 (Some [sample_event 200, sample_event 100])) =
       Inr [Log ''EIT (Event Information Table) [present] [service_id: 1024]'',
            Log separator,
            Dir_eit \<lparr>table_id = 0x4E, service_id = 1024, section_number = 0,
                     events = Some
                       [\<lparr>event_id = 200, start_time = Infinity, duration = Number 5400,
                          descriptors = []\<rparr>,
                        \<lparr>event_id = 100, start_time = Infinity, duration = Number 5400,
                          descriptors = []\<rparr>],
                     eit_raw = None\<rparr>,
            Log separator]"
proof -
  let ?opts = "no_options\<lparr>eventIds := Some ''100''\<rparr>"
  let ?fevs = "[\<lparr>event_id = 200, start_time = Infinity, duration = Number 5400,
                   descriptors = []\<rparr>,
                \<lparr>event_id = 100, start_time = Infinity, duration = Number 5400,
                   descriptors = []\<rparr>] :: field event list"
  have ids: "filterEventIds (configure ?opts) = [Num 100]"
    by code_simp
  have flags: "eventIds ?opts = Some ''100''" "serviceIds ?opts = None" "eitTypes ?opts = None"
    by (simp_all add: no_options_def)
  have fmt: "format_events sample_library [] False [sample_event 200, sample_event 100]
             = Inr (?fevs, False)"
    by code_simp
  have ban: "banner (sample_eit 0x4E 1024 0 (Some [sample_event 200, sample_event 100]))
             = ''EIT (Event Information Table) [present] [service_id: 1024]''"
    by code_simp
  have a: "output_of (on_eit sample_library (configure ?opts)
      (sample_eit 0x4E 1024 0 (Some [sample_event 200]))) = []"
    using C5_event_id_filter [where opts = ?opts and s = "''100''" and lib = sample_library
        and eit = "sample_eit 0x4E 1024 0 (Some [sample_event 200])"
        and evs = "[sample_event 200]" and fevs = "[]" and flag = False] ids flags
    by (simp add: sample_eit_def sample_event_def)
  have b: "output_of (on_eit sample_library (configure ?opts)
      (sample_eit 0x4E 1024 0 (Some []))) = []"
    using C5_event_id_filter [where opts = ?opts and s = "''100''" and lib = sample_library
        and eit = "sample_eit 0x4E 1024 0 (Some [])"
        and evs = "[]" and fevs = "[]" and flag = False] ids flags
    by (simp add: sample_eit_def)
  have c: "on_eit sample_library (configure ?opts)
      (sample_eit 0x4E 1024 0 (Some [sample_event 200, sample_event 100])) =
       Inr [Log ''EIT (Event Information Table) [present] [service_id: 1024]'',
            Log separator,
            Dir_eit \<lparr>table_id = 0x4E, service_id = 1024, section_number = 0,
                     events = Some ?fevs, eit_raw = None\<rparr>,
            Log separator]"
    using C5_event_id_filter [where opts = ?opts and s = "''100''" and lib = sample_library
        and eit = "sample_eit 0x4E 1024 0 (Some [sample_event 200, sample_event 100])"
        and evs = "[sample_event 200, sample_event 100]" and fevs = ?fevs and flag = False]
      ids flags fmt ban
    by (simp add: sample_eit_def sample_event_def)
  show ?thesis using a b c by simp
qed

subsection \<open>An empty event list\<close>

text \<open>
  C10. When \<open>--event-ids\<close> is not given, a table that passes the event-list, table-id,
  service-id and type filters and whose event list is empty is printed in full: the
  banner, a separator, the table with an empty sequence of events, a separator. When
  \<open>--event-ids\<close> is given, a table whose event list is empty prints nothing.
\<close>

theorem C10_empty_event_list:
  "(eventIds opts = None \<and> events eit = Some []
      \<and> ((0x50 \<le> table_id eit \<and> table_id eit < 0x60) \<or> table_id eit = 0x4E)
      \<and> (serviceIds opts = None \<or> Num (service_id eit) \<in> set (filterServiceIds (configure opts)))
      \<and> (eitTypes opts = None \<or> eit_type eit \<in> set (filterEitTypes (configure opts)))
      \<longrightarrow> on_eit lib (configure opts) eit =
            Inr [Log (banner eit), Log separator,
                 Dir_eit \<lparr>table_id = table_id eit, service_id = service_id eit,
                          section_number = section_number eit, events = Some [],
                          eit_raw = None\<rparr>,
                 Log separator])
   \<and> (eventIds opts = Some s \<and> events eit = Some []
      \<longrightarrow> on_eit lib (configure opts) eit = Inr [])"
proof (intro conjI impI)
  assume h: "eventIds opts = None \<and> events eit = Some []
      \<and> ((0x50 \<le> table_id eit \<and> table_id eit < 0x60) \<or> table_id eit = 0x4E)
      \<and> (serviceIds opts = None \<or> Num (service_id eit) \<in> set (filterServiceIds (configure opts)))
      \<and> (eitTypes opts = None \<or> eit_type eit \<in> set (filterEitTypes (configure opts)))"
  have fmt: "format_events lib [] False [] = Inr ([], False)" by simp
  from h have svc: "filterServiceIds (configure opts) = []
      \<or> Num (service_id eit) \<in> set (filterServiceIds (configure opts))"
    by (auto simp: filter_lists_configured)
  from h have tpe: "filterEitTypes (configure opts) = []
      \<or> eit_type eit \<in> set (filterEitTypes (configure opts))"
    by (auto simp: filter_lists_configured)
  from h have none: "filterEventIds (configure opts) = []"
    by (simp add: filter_lists_configured)
  from h have "on_eit lib (configure opts) eit = eit_filtered lib (configure opts) eit []"
    by (auto simp: on_eit_def includes_range_self_stream)
  then show "on_eit lib (configure opts) eit =
            Inr [Log (banner eit), Log separator,
                 Dir_eit \<lparr>table_id = table_id eit, service_id = service_id eit,
                          section_number = section_number eit, events = Some [],
                          eit_raw = None\<rparr>,
                 Log separator]"
    by (simp add: eit_filtered_formatted [OF svc tpe fmt] none)
next
  assume h: "eventIds opts = Some s \<and> events eit = Some []"
  then have "filterEventIds (configure opts) \<noteq> []"
    by (simp add: filter_lists_not_Nil)
  with h show "on_eit lib (configure opts) eit = Inr []"
    by (simp add: on_eit_def eit_filtered_def)
qed

text \<open>
  A \<open>schedule\<close> table with no event: printed with \<open>--service-ids 1024\<close> alone, not
  printed once \<open>--event-ids 100\<close> is added.
\<close>

theorem C10_empty_event_list_witness:
  "on_eit sample_library (configure (no_options\<lparr>serviceIds := Some ''1024''\<rparr>))
      (sample_eit 0x50 1024 0 (Some [])) =
       Inr [Log ''EIT (Event Information Table) [schedule] [service_id: 1024]'',
            Log separator,
            Dir_eit \<lparr>table_id = 0x50, service_id = 1024, section_number = 0,
                     events = Some [], eit_raw = None\<rparr>,
            Log separator]
   \<and> on_eit sample_library
        (configure (no_options\<lparr>serviceIds := Some ''1024'', eventIds := Some ''100''\<rparr>))
        (sample_eit 0x50 1024 0 (Some [])) = Inr []"
proof -
  let ?opts = "no_options\<lparr>serviceIds := Some ''1024''\<rparr>"
  let ?opts' = "no_options\<lparr>serviceIds := Some ''1024'', eventIds := Some ''100''\<rparr>"
  let ?eit = "sample_eit 0x50 1024 0 (Some [])"
  have ids: "filterServiceIds (configure ?opts) = [Num 1024]"
    by code_simp
  have flags: "eventIds ?opts = None" "eitTypes ?opts = None" "eventIds ?opts' = Some ''100''"
    by (simp_all add: no_options_def)
  have ban: "banner ?eit = ''EIT (Event Information Table) [schedule] [service_id: 1024]''"
    by code_simp
  have a: "on_eit sample_library (configure ?opts) ?eit =
       Inr [Log ''EIT (Event Information Table) [schedule] [service_id: 1024]'',
            Log separator,
            Dir_eit \<lparr>table_id = 0x50, service_id = 1024, section_number = 0,
                     events = Some [], eit_raw = None\<rparr>,
            Log separator]"
    using C10_empty_event_list [where opts = ?opts and s = "''100''" and lib = sample_library
        and eit = ?eit] ids flags ban
    by (simp add: sample_eit_def)
  have b: "on_eit sample_library (configure ?opts') ?eit = Inr []"
    using C10_empty_event_list [where opts = ?opts' and s = "''100''" and lib = sample_library
        and eit = ?eit] flags
    by (simp add: sample_eit_def)
  show ?thesis using a b by simp
qed

subsection \<open>Allow-list entries that are not numbers\<close>

text \<open>An entry with no decimal digit in it parses to \<open>NaN\<close>.\<close>

lemma parseInt_no_digit:
  assumes "\<forall>c \<in> set str. \<not> is_radix_digit 10 c"
  shows "parseInt str = NaN"
proof -
  define s1 where "s1 = dropWhile StrWhiteSpaceChar str"
  define s2 where
    "s2 = (case s1 of c # r \<Rightarrow> if c = CHR ''-'' \<or> c = CHR ''+'' then r else s1 | [] \<Rightarrow> s1)"
  have "set s1 \<subseteq> set str"
    unfolding s1_def by (auto dest: set_dropWhileD)
  moreover have "set s2 \<subseteq> set s1"
    unfolding s2_def by (auto split: list.splits)
  ultimately have nd: "\<forall>c \<in> set s2. \<not> is_radix_digit 10 c"
    using assms by blast
  have zero: "is_radix_digit 10 (CHR ''0'')"
    by (simp add: is_radix_digit_def digit_of_def)
  have nohex: "\<not> (case s2 of
                   c # x # _ \<Rightarrow> c = CHR ''0'' \<and> (x = CHR ''x'' \<or> x = CHR ''X'')
                 | _ \<Rightarrow> False)"
    using nd zero by (auto split: list.splits)
  have none: "takeWhile (is_radix_digit 10) s2 = []"
    using nd by (cases s2) auto
  show ?thesis
    unfolding parseInt_def Let_def s1_def [symmetric] s2_def [symmetric]
    using nohex none by simp
qed

text \<open>
  C8, as amended. For every start-up configuration that has an input path, also one with
  an entry without digits in the service-id or event-id allow-list, start-up reports no
  error: every entry goes through \<open>parseInt\<close>, an entry without digits stays in its
  allow-list as \<open>NaN\<close>, the separator of line 80 is logged and the tables are handled;
  a TOT among them is printed.
\<close>

theorem C8_non_numeric_entry:
  "input opts = Some path \<longrightarrow>
     startup opts = Inr (configure opts)
     \<and> main lib opts tables =
         (Log separator # fst (run lib (configure opts) tables),
          snd (run lib (configure opts) tables))
     \<and> (serviceIds opts = Some s \<and> entry \<in> set (string_split (CHR '','') s)
          \<and> (\<forall>c \<in> set entry. \<not> is_radix_digit 10 c)
        \<longrightarrow> NaN \<in> set (filterServiceIds (configure opts)))
     \<and> (eventIds opts = Some s' \<and> entry' \<in> set (string_split (CHR '','') s')
          \<and> (\<forall>c \<in> set entry'. \<not> is_radix_digit 10 c)
        \<longrightarrow> NaN \<in> set (filterEventIds (configure opts)))
     \<and> present lib (configure opts) (TOT tot) =
         Inr [Log ''TOT (Time Offset Table)'',
              Log separator,
              Dir_tot \<lparr>JST_time = Str (format_datetime lib (JST_time tot)), tot_raw = None\<rparr>,
              Log separator]"
proof (intro impI conjI)
  assume "input opts = Some path"
  then show "startup opts = Inr (configure opts)"
    by (simp add: startup_def)
  then show "main lib opts tables =
         (Log separator # fst (run lib (configure opts) tables),
          snd (run lib (configure opts) tables))"
    by (simp add: main_def split: prod.splits)
next
  assume "serviceIds opts = Some s \<and> entry \<in> set (string_split (CHR '','') s)
          \<and> (\<forall>c \<in> set entry. \<not> is_radix_digit 10 c)"
  then have nan: "parseInt entry = NaN"
    and entry: "entry \<in> set (string_split (CHR '','') s)"
    and flag: "serviceIds opts = Some s"
    by (simp_all add: parseInt_no_digit)
  from entry have "parseInt entry \<in> parseInt ` set (string_split (CHR '','') s)"
    by (rule imageI)
  with nan flag show "NaN \<in> set (filterServiceIds (configure opts))"
    by (simp add: filter_lists_configured)
next
  assume "eventIds opts = Some s' \<and> entry' \<in> set (string_split (CHR '','') s')
          \<and> (\<forall>c \<in> set entry'. \<not> is_radix_digit 10 c)"
  then have nan: "parseInt entry' = NaN"
    and entry: "entry' \<in> set (string_split (CHR '','') s')"
    and flag: "eventIds opts = Some s'"
    by (simp_all add: parseInt_no_digit)
  from entry have "parseInt entry' \<in> parseInt ` set (string_split (CHR '','') s')"
    by (rule imageI)
  with nan flag show "NaN \<in> set (filterEventIds (configure opts))"
    by (simp add: filter_lists_configured)
next
  show "present lib (configure opts) (TOT tot) =
         Inr [Log ''TOT (Time Offset Table)'',
              Log separator,
              Dir_tot \<lparr>JST_time = Str (format_datetime lib (JST_time tot)), tot_raw = None\<rparr>,
              Log separator]"
    by (simp add: on_tot_def)
qed

text \<open>
  With \<open>--service-ids 1024,abc --event-ids x\<close> start-up succeeds, both lists hold
  \<open>NaN\<close>, and of an EIT and a TOT the TOT is printed; the EIT has no event whose id is in
  the list of event ids.
\<close>

theorem C8_non_numeric_entry_witness:
  "startup (no_options\<lparr>serviceIds := Some ''1024,abc'', eventIds := Some ''x''\<rparr>) =
     Inr \<lparr>filterEitTypes = [], filterServiceIds = [Num 1024, NaN], filterEventIds = [NaN]\<rparr>
   \<and> main sample_library (no_options\<lparr>serviceIds := Some ''1024,abc'', eventIds := Some ''x''\<rparr>)
        [EIT (sample_eit 0x4E 1024 0 (Some [sample_event 100])),
         TOT \<lparr>JST_time = [0x4A, 0x53, 0x54, 0x30, 0x39], tot_raw = Some []\<rparr>] =
       ([Log separator,
         Log ''TOT (Time Offset Table)'',
         Log separator,
         Dir_tot \<lparr>JST_time = Str ''JST09'', tot_raw = None\<rparr>,
         Log separator], None)"
proof -
  let ?opts = "no_options\<lparr>serviceIds := Some ''1024,abc'', eventIds := Some ''x''\<rparr>"
  let ?tables = "[EIT (sample_eit 0x4E 1024 0 (Some [sample_event 100])),
                  TOT \<lparr>JST_time = [0x4A, 0x53, 0x54, 0x30, 0x39], tot_raw = Some []\<rparr>]"
  note inst = C8_non_numeric_entry [where opts = ?opts and path = "''in.ts''"
      and lib = sample_library and tables = ?tables
      and s = "''1024,abc''" and entry = "''abc''" and s' = "''x''" and entry' = "''x''"
      and tot = "\<lparr>JST_time = [0x4A, 0x53, 0x54, 0x30, 0x39], tot_raw = Some []\<rparr>"]
  have flags: "input ?opts = Some ''in.ts''" "serviceIds ?opts = Some ''1024,abc''"
    "eventIds ?opts = Some ''x''"
    by (simp_all add: no_options_def)
  have entries: "''abc'' \<in> set (string_split (CHR '','') ''1024,abc'')"
    "''x'' \<in> set (string_split (CHR '','') ''x'')"
    by simp_all
  have letters: "\<forall>c \<in> set ''abc''. \<not> is_radix_digit 10 c" "\<forall>c \<in> set ''x''. \<not> is_radix_digit 10 c"
    by (simp_all add: is_radix_digit_def digit_of_def)
  have cfg: "configure ?opts =
      \<lparr>filterEitTypes = [], filterServiceIds = [Num 1024, NaN], filterEventIds = [NaN]\<rparr>"
    by code_simp
  have nan: "NaN \<in> set (filterServiceIds (configure ?opts))"
    "NaN \<in> set (filterEventIds (configure ?opts))"
    using inst flags entries letters by blast+
  have tables: "run sample_library (configure ?opts) ?tables =
       ([Log ''TOT (Time Offset Table)'',
         Log separator,
         Dir_tot \<lparr>JST_time = Str ''JST09'', tot_raw = None\<rparr>,
         Log separator], None)"
    by code_simp
  have a: "startup ?opts = Inr (configure ?opts)"
    using inst flags by blast
  have b: "main sample_library ?opts ?tables =
         (Log separator # fst (run sample_library (configure ?opts) ?tables),
          snd (run sample_library (configure ?opts) ?tables))"
    using inst flags by blast
  show ?thesis using a b cfg tables nan by simp
qed

text \<open>
  The claim as the spec states it fails for \<open>--service-ids abc\<close>: start-up returns a
  configuration, whose list of service ids is \<open>NaN\<close> alone, and the TOT that follows is
  printed.
\<close>

theorem C8_non_numeric_entry_counterexample:
  "parseInt ''abc'' = NaN
   \<and> startup (no_options\<lparr>serviceIds := Some ''abc''\<rparr>) =
       Inr \<lparr>filterEitTypes = [], filterServiceIds = [NaN], filterEventIds = []\<rparr>
   \<and> main sample_library (no_options\<lparr>serviceIds := Some ''abc''\<rparr>)
        [TOT \<lparr>JST_time = [0x4A, 0x53, 0x54, 0x30, 0x39], tot_raw = Some []\<rparr>] =
       ([Log separator,
         Log ''TOT (Time Offset Table)'',
         Log separator,
         Dir_tot \<lparr>JST_time = Str ''JST09'', tot_raw = None\<rparr>,
         Log separator], None)"
  by code_simp

subsection \<open>Language codes\<close>

text \<open>
  A descriptor whose tag is not \<open>0x4E\<close> and that carries a language code is printed with
  the string that maps each byte to its character: \<open>4A 50 4E\<close> gives \<open>JPN\<close>.
\<close>

lemma language_code_other_tags:
  assumes "descriptor_tag d \<noteq> 0x4E" and "ISO_639_language_code d = Some b"
    and "format_descriptor lib d = Inr fd"
  shows "ISO_639_language_code fd = Some (Str (fromCharCode_buffer b))"
  using assms by (auto simp: format_descriptor_def Let_def split: if_splits option.splits)

lemma fromCharCode_buffer_JPN: "fromCharCode_buffer [0x4A, 0x50, 0x4E] = ''JPN''"
  by code_simp

text \<open>
  In a descriptor with tag \<open>0x4E\<close> line 143 converts a second time, now the characters of
  the string that line 130 stored: every character that is not a decimal digit becomes
  the code unit 0.
\<close>

lemma language_code_extended:
  assumes "descriptor_tag d = 0x4E" and "ISO_639_language_code d = Some b"
    and "format_descriptor lib d = Inr fd"
  shows "ISO_639_language_code fd = Some (Str (fromCharCode_string (fromCharCode_buffer b)))"
  using assms by (auto simp: format_descriptor_def Let_def split: if_splits option.splits)

lemma fromCharCode_string_JPN: "fromCharCode_string ''JPN'' = [CHR 0x00, CHR 0x00, CHR 0x00]"
  by code_simp

text \<open>
  C9 fails on the code for the extended event descriptor. The descriptor with tag
  \<open>0x4E\<close>, language code \<open>4A 50 4E\<close> and no item is formatted with a language code of
  three code units 0, which is not the string \<open>JPN\<close>, and so it is printed; the same
  descriptor under tag \<open>0x50\<close> is formatted with \<open>JPN\<close>.
\<close>

theorem C9_extended_descriptor_language_code:
  "format_descriptor lib
     \<lparr>descriptor_tag = 0x4E, descriptor_raw = Some [],
      ISO_639_language_code = Some [0x4A, 0x50, 0x4E], text_char = Some [],
      event_name_char = None, items = Some []\<rparr> =
   Inr \<lparr>descriptor_tag = 0x4E, descriptor_raw = None,
        ISO_639_language_code = Some (Str [CHR 0x00, CHR 0x00, CHR 0x00]),
        text_char = Some (Str (TsChar_decode lib [])),
        event_name_char = None, items = Some []\<rparr>
   \<and> [CHR 0x00, CHR 0x00, CHR 0x00] \<noteq> ''JPN''
   \<and> format_descriptor lib
     \<lparr>descriptor_tag = 0x50, descriptor_raw = Some [],
      ISO_639_language_code = Some [0x4A, 0x50, 0x4E], text_char = Some [],
      event_name_char = None, items = None\<rparr> =
   Inr \<lparr>descriptor_tag = 0x50, descriptor_raw = None,
        ISO_639_language_code = Some (Str ''JPN''),
        text_char = Some (Str (TsChar_decode lib [])),
        event_name_char = None, items = None\<rparr>
   \<and> on_eit sample_library (configure no_options)
       (sample_eit 0x4E 1024 0
          (Some [\<lparr>event_id = 100, start_time = UNKNOWN_START_TIME,
                   duration = [0x01, 0x30, 0x00],
                   descriptors =
                     [\<lparr>descriptor_tag = 0x4E, descriptor_raw = Some [],
                       ISO_639_language_code = Some [0x4A, 0x50, 0x4E], text_char = Some [],
                       event_name_char = None, items = Some []\<rparr>]\<rparr>])) =
     Inr [Log ''EIT (Event Information Table) [present] [service_id: 1024]'',
          Log separator,
          Dir_eit
            \<lparr>table_id = 0x4E, service_id = 1024, section_number = 0,
             events = Some
               [\<lparr>event_id = 100, start_time = Infinity, duration = Number 5400,
                  descriptors =
                    [\<lparr>descriptor_tag = 0x4E, descriptor_raw = None,
                      ISO_639_language_code = Some (Str [CHR 0x00, CHR 0x00, CHR 0x00]),
                      text_char = Some (Str []), event_name_char = None,
                      items = Some []\<rparr>]\<rparr>],
             eit_raw = None\<rparr>,
          Log separator]"
proof (intro conjI)
  show "on_eit sample_library (configure no_options)
       (sample_eit 0x4E 1024 0
          (Some [\<lparr>event_id = 100, start_time = UNKNOWN_START_TIME,
                   duration = [0x01, 0x30, 0x00],
                   descriptors =
                     [\<lparr>descriptor_tag = 0x4E, descriptor_raw = Some [],
                       ISO_639_language_code = Some [0x4A, 0x50, 0x4E], text_char = Some [],
                       event_name_char = None, items = Some []\<rparr>]\<rparr>])) =
     Inr [Log ''EIT (Event Information Table) [present] [service_id: 1024]'',
          Log separator,
          Dir_eit
            \<lparr>table_id = 0x4E, service_id = 1024, section_number = 0,
             events = Some
               [\<lparr>event_id = 100, start_time = Infinity, duration = Number 5400,
                  descriptors =
                    [\<lparr>descriptor_tag = 0x4E, descriptor_raw = None,
                      ISO_639_language_code = Some (Str [CHR 0x00, CHR 0x00, CHR 0x00]),
                      text_char = Some (Str []), event_name_char = None,
                      items = Some []\<rparr>]\<rparr>],
             eit_raw = None\<rparr>,
          Log separator]"
    by code_simp
qed (simp_all add: format_descriptor_def fromCharCode_buffer_JPN fromCharCode_string_JPN)

end
